theory Spec2Isabelle
  imports Complex_Main "HOL-Library.Word" "HOL-Library.Sublist"
begin

section \<open>Python values and exceptions\<close>

text \<open>
  The services work on decoded JSON: \<^verbatim>\<open>None\<close>, booleans, integers, floats, strings,
  lists and dictionaries. A dictionary is an association list in insertion order, looked up
  with \<open>map_of\<close>; a float is its 64 IEEE bits, of which only the test against zero is used.
  A Python \<^verbatim>\<open>str\<close> is a \<open>string\<close> whose characters are the code points below 256.
\<close>

datatype json =
    JNull
  | JBool bool
  | JInt int
  | JFloat "64 word"
  | JStr string
  | JArr "json list"
  | JObj "(string \<times> json) list"

datatype py_error =
    ValueError string
  | AttributeError
  | TypeError
  | KeyError
  | JSONDecodeError
  | RecursionError
  | UnicodeEncodeError
  | UpstreamError string

definition and_then :: "'e + 'a \<Rightarrow> ('a \<Rightarrow> 'e + 'b) \<Rightarrow> 'e + 'b" where
  "and_then r f = (case r of Inl e \<Rightarrow> Inl e | Inr v \<Rightarrow> f v)"

text \<open>\<^verbatim>\<open>bool(v)\<close>: what \<^verbatim>\<open>if v:\<close> and \<^verbatim>\<open>v or w\<close> test.\<close>

fun truthy :: "json \<Rightarrow> bool" where
  "truthy JNull = False"
| "truthy (JBool b) = b"
| "truthy (JInt i) = (i \<noteq> 0)"
| "truthy (JFloat w) = (push_bit 1 w \<noteq> 0)"
| "truthy (JStr s) = (s \<noteq> [])"
| "truthy (JArr xs) = (xs \<noteq> [])"
| "truthy (JObj kvs) = (kvs \<noteq> [])"

text \<open>\<^verbatim>\<open>v.get(k, d)\<close>: only a dictionary has the method.\<close>

fun py_get :: "json \<Rightarrow> string \<Rightarrow> json \<Rightarrow> py_error + json" where
  "py_get (JObj kvs) k d = Inr (case map_of kvs k of Some v \<Rightarrow> v | None \<Rightarrow> d)"
| "py_get _ k d = Inl AttributeError"

text \<open>\<^verbatim>\<open>list(v.values())\<close>\<close>

fun py_values :: "json \<Rightarrow> py_error + json list" where
  "py_values (JObj kvs) = Inr (map snd kvs)"
| "py_values _ = Inl AttributeError"

text \<open>\<^verbatim>\<open>k in v\<close> for a string \<open>k\<close>\<close>

fun py_contains :: "string \<Rightarrow> json \<Rightarrow> py_error + bool" where
  "py_contains k (JObj kvs) = Inr (k \<in> fst ` set kvs)"
| "py_contains k (JStr s) = Inr (sublist k s)"
| "py_contains k (JArr xs) = Inr (JStr k \<in> set xs)"
| "py_contains k _ = Inl TypeError"

text \<open>\<^verbatim>\<open>v[k]\<close> for a string \<open>k\<close>\<close>

fun py_getitem :: "json \<Rightarrow> string \<Rightarrow> py_error + json" where
  "py_getitem (JObj kvs) k = (case map_of kvs k of Some v \<Rightarrow> Inr v | None \<Rightarrow> Inl KeyError)"
| "py_getitem _ k = Inl TypeError"

text \<open>
  \<^verbatim>\<open>str(v)\<close>, as an f-string renders a value. The rendering of floats, lists and dictionaries
  is Python's own and is taken as the parameter \<open>repr\<close>.
\<close>

fun digits :: "nat \<Rightarrow> string" where
  "digits n =
     (if n < 10 then [''0123456789'' ! n] else digits (n div 10) @ [''0123456789'' ! (n mod 10)])"

declare digits.simps [simp del]

definition str_int :: "int \<Rightarrow> string" where
  "str_int i = (if i < 0 then CHR ''-'' # digits (nat (- i)) else digits (nat i))"

fun py_str :: "(json \<Rightarrow> string) \<Rightarrow> json \<Rightarrow> string" where
  "py_str repr JNull = ''None''"
| "py_str repr (JBool b) = (if b then ''True'' else ''False'')"
| "py_str repr (JInt i) = str_int i"
| "py_str repr (JStr s) = s"
| "py_str repr v = repr v"

section \<open>The canonical brand schema\<close>

text \<open>
  Modelled from the spec: the value classes of \<^verbatim>\<open>mirage/schemas/brand.py\<close>, which the services
  import and which is not among the sources. Following section 3 of the specification they
  are plain value objects that keep whatever the extractor passes, with the defaults given
  there; an optional field that is not present is \<open>JNull\<close> (Python's \<^verbatim>\<open>None\<close>), an absent
  button is \<open>None\<close>. Field names that several classes share, and \<^verbatim>\<open>text\<close>, carry a prefix.
\<close>

record BrandColors =
  primary :: json
  secondary :: json
  accent :: json
  background :: json
  text_color :: json
  palette :: "json list"

record BrandTypography =
  headings :: json
  body :: json
  weights :: json
  base_size :: json

record BrandSpacing =
  grid :: json
  gap :: json

record ButtonStyle =
  bg :: json
  btn_text :: json
  border_radius :: json
  padding :: json
  border :: json

record BrandButtons =
  btn_primary :: "ButtonStyle option"
  btn_secondary :: "ButtonStyle option"

record BrandData =
  url :: string
  colors :: BrandColors
  typography :: BrandTypography
  spacing :: BrandSpacing
  buttons :: BrandButtons
  logo_url :: json
  favicon_url :: json
  screenshots :: "json list"

definition default_weights :: json where
  "default_weights = JArr [JInt 400, JInt 600, JInt 700]"

text \<open>\<^verbatim>\<open>BrandSpacing()\<close> and \<^verbatim>\<open>BrandButtons()\<close>\<close>

definition default_spacing :: BrandSpacing where
  "default_spacing = \<lparr>grid = JStr ''8px'', gap = JNull\<rparr>"

definition default_buttons :: BrandButtons where
  "default_buttons = \<lparr>btn_primary = None, btn_secondary = None\<rparr>"

section \<open>The structured extractor (\<^verbatim>\<open>services/firecrawl.py\<close>)\<close>

text \<open>
  \<^verbatim>\<open>FirecrawlService.__init__\<close>: \<open>api_key\<close> is the constructor's parameter and \<open>env\<close> the value
  of \<^verbatim>\<open>os.getenv("FIRECRAWL_API_KEY")\<close>, each \<open>None\<close> when absent. \<^verbatim>\<open>a or b\<close> is \<open>a\<close> when \<open>a\<close>
  is a non-empty string and \<open>b\<close> otherwise; \<^verbatim>\<open>not key\<close> holds for \<^verbatim>\<open>None\<close> and for the empty
  string. After the guard the HTTP client is built with the header
  \<^verbatim>\<open>Authorization: Bearer <key>\<close>; \<open>AsyncClient\<close> is the outcome of \<^verbatim>\<open>httpx.AsyncClient(...)\<close> for
  that header value, the client or the exception the library raised, which propagates. The
  service is the key and the client it stores.
\<close>

record 'c service =
  service_api_key :: string
  service_client :: 'c

definition py_or :: "string option \<Rightarrow> string option \<Rightarrow> string option" where
  "py_or a b = (case a of Some (c # cs) \<Rightarrow> a | _ \<Rightarrow> b)"

definition FirecrawlService ::
  "(string \<Rightarrow> py_error + 'c) \<Rightarrow> string option \<Rightarrow> string option \<Rightarrow> py_error + 'c service" where
  "FirecrawlService AsyncClient api_key env =
     (case py_or api_key env of
        Some (c # cs) \<Rightarrow>
          and_then (AsyncClient (''Bearer '' @ c # cs)) (\<lambda>client.
            Inr \<lparr>service_api_key = c # cs, service_client = client\<rparr>)
      | _ \<Rightarrow> Inl (ValueError ''FIRECRAWL_API_KEY is required''))"

text \<open>
  \<^verbatim>\<open>extract_brand\<close>, lines 88 to 160, in the order of the source. \<open>response\<close> is the outcome of
  the POST, \<^verbatim>\<open>raise_for_status()\<close> and \<^verbatim>\<open>response.json()\<close>: the decoded body, or the exception
  they raised.
\<close>

definition extract_screenshots :: "json \<Rightarrow> bool \<Rightarrow> py_error + json list" where
  "extract_screenshots data include_screenshots =
     (if include_screenshots then
        and_then (py_get data ''data'' (JObj [])) (\<lambda>d.
        and_then (py_contains ''screenshot'' d) (\<lambda>present.
          if present then
            and_then (py_getitem data ''data'') (\<lambda>dd.
            and_then (py_getitem dd ''screenshot'') (\<lambda>s. Inr [s]))
          else Inr []))
      else Inr [])"

definition extract_colors :: "json \<Rightarrow> py_error + BrandColors" where
  "extract_colors branding =
     and_then (py_get branding ''colors'' (JObj [])) (\<lambda>colors_data.
     and_then (py_get colors_data ''primary'' (JStr ''#000000'')) (\<lambda>p.
     and_then (py_get colors_data ''secondary'' JNull) (\<lambda>s.
     and_then (py_get colors_data ''accent'' JNull) (\<lambda>a.
     and_then (py_get colors_data ''background'' JNull) (\<lambda>b.
     and_then (py_get colors_data ''textPrimary'' JNull) (\<lambda>t.
     and_then (if truthy colors_data then py_values colors_data else Inr []) (\<lambda>pal.
       Inr \<lparr>primary = p, secondary = s, accent = a, background = b, text_color = t,
            palette = pal\<rparr>)))))))"

definition extract_typography :: "json \<Rightarrow> py_error + BrandTypography" where
  "extract_typography branding =
     and_then (py_get branding ''typography'' (JObj [])) (\<lambda>typo_data.
     and_then (py_get typo_data ''fontFamilies'' (JObj [])) (\<lambda>font_families.
     and_then (py_get typo_data ''fontWeights'' (JObj [])) (\<lambda>font_weights.
     and_then (py_get font_families ''primary'' (JStr ''sans-serif'')) (\<lambda>fallback.
     and_then (py_get font_families ''heading'' fallback) (\<lambda>h.
     and_then (py_get font_families ''primary'' (JStr ''sans-serif'')) (\<lambda>b.
     and_then (if truthy font_weights then and_then (py_values font_weights) (\<lambda>ws. Inr (JArr ws))
               else Inr default_weights) (\<lambda>w.
     and_then (py_get typo_data ''fontSizes'' (JObj [])) (\<lambda>font_sizes.
     and_then (py_get font_sizes ''body'' (JStr ''16px'')) (\<lambda>sz.
       Inr \<lparr>headings = h, body = b, weights = w, base_size = sz\<rparr>)))))))))"

definition extract_spacing :: "(json \<Rightarrow> string) \<Rightarrow> json \<Rightarrow> py_error + BrandSpacing" where
  "extract_spacing repr branding =
     and_then (py_get branding ''spacing'' (JObj [])) (\<lambda>spacing_data.
     and_then (py_get spacing_data ''baseUnit'' (JInt 8)) (\<lambda>base_unit.
     and_then (py_get spacing_data ''borderRadius'' JNull) (\<lambda>radius.
       Inr \<lparr>grid = JStr (py_str repr base_unit @ ''px''),
            gap = (if truthy radius then radius else JNull)\<rparr>)))"

definition extract_button_primary :: "json \<Rightarrow> json \<Rightarrow> py_error + ButtonStyle option" where
  "extract_button_primary components colors_primary =
     and_then (py_get components ''buttonPrimary'' JNull) (\<lambda>present.
       if truthy present then
         and_then (py_getitem components ''buttonPrimary'') (\<lambda>btn.
         and_then (py_get btn ''background'' colors_primary) (\<lambda>b.
         and_then (py_get btn ''textColor'' (JStr ''#ffffff'')) (\<lambda>t.
         and_then (py_get btn ''borderRadius'' (JStr ''4px'')) (\<lambda>r.
           Inr (Some \<lparr>bg = b, btn_text = t, border_radius = r, padding = JStr ''12px 24px'',
                      border = JNull\<rparr>)))))
       else Inr None)"

definition extract_button_secondary :: "json \<Rightarrow> json \<Rightarrow> py_error + ButtonStyle option" where
  "extract_button_secondary components colors_primary =
     and_then (py_get components ''buttonSecondary'' JNull) (\<lambda>present.
       if truthy present then
         and_then (py_getitem components ''buttonSecondary'') (\<lambda>btn.
         and_then (py_get btn ''background'' (JStr ''transparent'')) (\<lambda>b.
         and_then (py_get btn ''textColor'' colors_primary) (\<lambda>t.
         and_then (py_get btn ''borderRadius'' (JStr ''4px'')) (\<lambda>r.
         and_then (py_get btn ''borderColor'' JNull) (\<lambda>bd.
           Inr (Some \<lparr>bg = b, btn_text = t, border_radius = r, padding = JStr ''12px 24px'',
                      border = bd\<rparr>))))))
       else Inr None)"

definition extract_buttons :: "json \<Rightarrow> json \<Rightarrow> py_error + BrandButtons" where
  "extract_buttons branding colors_primary =
     and_then (py_get branding ''components'' (JObj [])) (\<lambda>components.
     and_then (extract_button_primary components colors_primary) (\<lambda>p.
     and_then (extract_button_secondary components colors_primary) (\<lambda>s.
       Inr \<lparr>btn_primary = p, btn_secondary = s\<rparr>)))"

definition extract_images :: "json \<Rightarrow> py_error + json \<times> json" where
  "extract_images branding =
     and_then (py_get branding ''images'' (JObj [])) (\<lambda>images.
     and_then (py_get images ''logo'' JNull) (\<lambda>logo.
     and_then (if truthy logo then Inr logo else py_get branding ''logo'' JNull) (\<lambda>l.
     and_then (py_get images ''favicon'' JNull) (\<lambda>f. Inr (l, f)))))"

definition extract_brand ::
  "(json \<Rightarrow> string) \<Rightarrow> py_error + json \<Rightarrow> string \<Rightarrow> bool \<Rightarrow> py_error + BrandData" where
  "extract_brand repr response u include_screenshots =
     and_then response (\<lambda>data.
     and_then (py_get data ''data'' (JObj [])) (\<lambda>d.
     and_then (py_get d ''branding'' (JObj [])) (\<lambda>branding.
     and_then (extract_screenshots data include_screenshots) (\<lambda>shots.
     and_then (extract_colors branding) (\<lambda>cs.
     and_then (extract_typography branding) (\<lambda>ty.
     and_then (extract_spacing repr branding) (\<lambda>sp.
     and_then (extract_buttons branding (primary cs)) (\<lambda>bs.
     and_then (extract_images branding) (\<lambda>(logo, favicon).
       Inr \<lparr>url = u, colors = cs, typography = ty, spacing = sp, buttons = bs,
            logo_url = logo, favicon_url = favicon, screenshots = shots\<rparr>)))))))))"

section \<open>The visual extractor (\<^verbatim>\<open>services/vision.py\<close>)\<close>

text \<open>
  \<^verbatim>\<open>VisionService.__init__\<close>: the same guard, then \<^verbatim>\<open>anthropic.AsyncAnthropic(api_key=...)\<close>, whose
  outcome for the key is \<open>AsyncAnthropic\<close>, and the fixed model name.
\<close>

record 'c vision_service =
  vision_api_key :: string
  vision_client :: 'c
  vision_model :: string

definition VisionService ::
  "(string \<Rightarrow> py_error + 'c) \<Rightarrow> string option \<Rightarrow> string option \<Rightarrow>
     py_error + 'c vision_service" where
  "VisionService AsyncAnthropic api_key env =
     (case py_or api_key env of
        Some (c # cs) \<Rightarrow>
          and_then (AsyncAnthropic (c # cs)) (\<lambda>client.
            Inr \<lparr>vision_api_key = c # cs, vision_client = client,
                 vision_model = ''claude-sonnet-4-20250514''\<rparr>)
      | _ \<Rightarrow> Inl (ValueError ''ANTHROPIC_API_KEY is required''))"

subsection \<open>String operations\<close>

text \<open>\<^verbatim>\<open>str.isspace\<close> on the code points below 256, and \<^verbatim>\<open>str.strip()\<close>.\<close>

definition isspace :: "char \<Rightarrow> bool" where
  "isspace c =
     (let n = (of_char c :: nat)
      in (9 \<le> n \<and> n \<le> 13) \<or> (28 \<le> n \<and> n \<le> 32) \<or> n = 133 \<or> n = 160)"

definition strip :: "string \<Rightarrow> string" where
  "strip s = rev (dropWhile isspace (rev (dropWhile isspace s)))"

definition newline :: char where
  "newline = CHR 0x0A"

definition fence :: string where
  "fence = ''```''"

text \<open>\<^verbatim>\<open>s.split("\n")\<close> and \<^verbatim>\<open>"\n".join(lines)\<close>\<close>

fun split_lines :: "string \<Rightarrow> string list" where
  "split_lines [] = [[]]"
| "split_lines (c # cs) =
     (if c = newline then [] # split_lines cs
      else (case split_lines cs of [] \<Rightarrow> [[c]] | l # ls \<Rightarrow> (c # l) # ls))"

fun join_lines :: "string list \<Rightarrow> string" where
  "join_lines [] = []"
| "join_lines [l] = l"
| "join_lines (l # ls) = l @ newline # join_lines ls"

text \<open>Lines 135 to 142 of \<^verbatim>\<open>_parse_response\<close>: the markdown code block is removed.\<close>

definition strip_fence :: "string \<Rightarrow> string" where
  "strip_fence text =
     (if prefix fence text then
        (let lines = tl (split_lines text);
             lines = (if lines \<noteq> [] \<and> strip (last lines) = fence then butlast lines else lines)
         in join_lines lines)
      else text)"

subsection \<open>Parsing the model's reply\<close>

text \<open>\<^verbatim>\<open>_default_brand_data\<close>: the fields not passed take the schema's defaults.\<close>

definition default_brand_data :: "string \<Rightarrow> string \<Rightarrow> BrandData" where
  "default_brand_data source_url screenshot_url =
     \<lparr>url = source_url,
      colors = \<lparr>primary = JStr ''#000000'', secondary = JNull, accent = JNull,
                background = JNull, text_color = JNull, palette = []\<rparr>,
      typography = \<lparr>headings = JStr ''sans-serif'', body = JStr ''sans-serif'',
                    weights = default_weights, base_size = JNull\<rparr>,
      spacing = default_spacing,
      buttons = default_buttons,
      logo_url = JNull, favicon_url = JNull,
      screenshots = [JStr screenshot_url]\<rparr>"

definition parse_colors :: "json \<Rightarrow> py_error + BrandColors" where
  "parse_colors data =
     and_then (py_get data ''colors'' (JObj [])) (\<lambda>colors_data.
     and_then (py_get colors_data ''primary'' (JStr ''#000000'')) (\<lambda>p.
     and_then (py_get colors_data ''secondary'' JNull) (\<lambda>s.
     and_then (py_get colors_data ''accent'' JNull) (\<lambda>a.
     and_then (py_get colors_data ''background'' (JStr ''#ffffff'')) (\<lambda>b.
     and_then (py_get colors_data ''text'' (JStr ''#000000'')) (\<lambda>t.
     and_then (py_get colors_data ''primary'' JNull) (\<lambda>c1.
     and_then (py_get colors_data ''secondary'' JNull) (\<lambda>c2.
     and_then (py_get colors_data ''accent'' JNull) (\<lambda>c3.
     and_then (py_get colors_data ''background'' JNull) (\<lambda>c4.
     and_then (py_get colors_data ''text'' JNull) (\<lambda>c5.
       Inr \<lparr>primary = p, secondary = s, accent = a, background = b, text_color = t,
            palette = filter truthy [c1, c2, c3, c4, c5]\<rparr>)))))))))))"

definition parse_typography :: "json \<Rightarrow> py_error + BrandTypography" where
  "parse_typography data =
     and_then (py_get data ''typography'' (JObj [])) (\<lambda>typo_data.
     and_then (py_get typo_data ''headings'' (JStr ''sans-serif'')) (\<lambda>h.
     and_then (py_get typo_data ''body'' (JStr ''sans-serif'')) (\<lambda>b.
     and_then (py_get typo_data ''weights'' default_weights) (\<lambda>w.
       Inr \<lparr>headings = h, body = b, weights = w, base_size = JNull\<rparr>))))"

definition parse_border :: "json \<Rightarrow> py_error + json" where
  "parse_border btn =
     and_then (py_get btn ''has_border'' JNull) (\<lambda>has_border.
       if truthy has_border then py_get btn ''border'' JNull else Inr JNull)"

definition parse_button_primary :: "json \<Rightarrow> json \<Rightarrow> py_error + ButtonStyle option" where
  "parse_button_primary buttons_data colors_primary =
     and_then (py_get buttons_data ''primary'' JNull) (\<lambda>present.
       if truthy present then
         and_then (py_getitem buttons_data ''primary'') (\<lambda>btn.
         and_then (py_get btn ''bg'' colors_primary) (\<lambda>b.
         and_then (py_get btn ''text'' (JStr ''#ffffff'')) (\<lambda>t.
         and_then (py_get btn ''border_radius'' (JStr ''4px'')) (\<lambda>r.
         and_then (parse_border btn) (\<lambda>bd.
           Inr (Some \<lparr>bg = b, btn_text = t, border_radius = r, padding = JStr ''12px 24px'',
                      border = bd\<rparr>))))))
       else Inr None)"

definition parse_button_secondary :: "json \<Rightarrow> json \<Rightarrow> py_error + ButtonStyle option" where
  "parse_button_secondary buttons_data colors_primary =
     and_then (py_get buttons_data ''secondary'' JNull) (\<lambda>present.
       if truthy present then
         and_then (py_getitem buttons_data ''secondary'') (\<lambda>btn.
         and_then (py_get btn ''bg'' (JStr ''transparent'')) (\<lambda>b.
         and_then (py_get btn ''text'' colors_primary) (\<lambda>t.
         and_then (py_get btn ''border_radius'' (JStr ''4px'')) (\<lambda>r.
         and_then (parse_border btn) (\<lambda>bd.
           Inr (Some \<lparr>bg = b, btn_text = t, border_radius = r, padding = JStr ''12px 24px'',
                      border = bd\<rparr>))))))
       else Inr None)"

definition parse_buttons :: "json \<Rightarrow> json \<Rightarrow> py_error + BrandButtons" where
  "parse_buttons data colors_primary =
     and_then (py_get data ''buttons'' (JObj [])) (\<lambda>buttons_data.
     and_then (parse_button_primary buttons_data colors_primary) (\<lambda>p.
     and_then (parse_button_secondary buttons_data colors_primary) (\<lambda>s.
       Inr \<lparr>btn_primary = p, btn_secondary = s\<rparr>)))"

text \<open>Lines 149 to 207 of \<^verbatim>\<open>_parse_response\<close>: the decoded reply becomes a \<open>BrandData\<close>.\<close>

definition brand_of_reply :: "json \<Rightarrow> string \<Rightarrow> string \<Rightarrow> py_error + BrandData" where
  "brand_of_reply data source_url screenshot_url =
     and_then (parse_colors data) (\<lambda>cs.
     and_then (parse_typography data) (\<lambda>ty.
     and_then (parse_buttons data (primary cs)) (\<lambda>bs.
       Inr \<lparr>url = source_url, colors = cs, typography = ty, spacing = default_spacing,
            buttons = bs, logo_url = JNull, favicon_url = JNull,
            screenshots = [JStr screenshot_url]\<rparr>)))"

text \<open>
  \<^verbatim>\<open>_parse_response\<close>. \<open>loads\<close> is \<^verbatim>\<open>json.loads\<close>: the decoded value, or the exception it
  raised, of which only \<^verbatim>\<open>JSONDecodeError\<close> is caught.
\<close>

definition parse_response ::
  "(string \<Rightarrow> py_error + json) \<Rightarrow> string \<Rightarrow> string \<Rightarrow> string \<Rightarrow> py_error + BrandData" where
  "parse_response loads response_text source_url screenshot_url =
     (let text = strip_fence (strip response_text)
      in case loads (strip text) of
           Inl e \<Rightarrow>
             if e = JSONDecodeError then Inr (default_brand_data source_url screenshot_url)
             else Inl e
         | Inr data \<Rightarrow> brand_of_reply data source_url screenshot_url)"

text \<open>
  \<^verbatim>\<open>analyze_brand\<close>. \<open>completion\<close> is the outcome of the one request to the model: the text of
  its reply, or the exception the client raised.
\<close>

definition analyze_brand ::
  "(string \<Rightarrow> py_error + json) \<Rightarrow> py_error + string \<Rightarrow> string \<Rightarrow> string \<Rightarrow> py_error + BrandData" where
  "analyze_brand loads completion screenshot_url source_url =
     and_then completion (\<lambda>reply. parse_response loads reply source_url screenshot_url)"

section \<open>Total readings of the extractors\<close>

text \<open>Total readings of a decoded value: a key of a non-dictionary is not present.\<close>

fun is_obj :: "json \<Rightarrow> bool" where
  "is_obj (JObj kvs) = True"
| "is_obj _ = False"

fun field :: "json \<Rightarrow> string \<Rightarrow> json option" where
  "field (JObj kvs) k = map_of kvs k"
| "field _ k = None"

definition lookup :: "json \<Rightarrow> string \<Rightarrow> json \<Rightarrow> json" where
  "lookup j k d = (case field j k of Some v \<Rightarrow> v | None \<Rightarrow> d)"

definition sub :: "json \<Rightarrow> string \<Rightarrow> json" where
  "sub j k = lookup j k (JObj [])"

fun values_of :: "json \<Rightarrow> json list" where
  "values_of (JObj kvs) = map snd kvs"
| "values_of _ = []"

subsection \<open>The structured extractor where it returns\<close>

text \<open>
  What \<open>extract_brand\<close> computes, read off its code with total lookups and without the
  exceptions, over the branding object \<open>sub (sub data ''data'') ''branding''\<close>; a device
  for the proofs, compared with the code below. \<open>well_shaped\<close> says when the code raises
  nothing: every container that is descended into is a dictionary when it is present, and
  \<^verbatim>\<open>fontWeights\<close>, \<^verbatim>\<open>buttonPrimary\<close> and \<^verbatim>\<open>buttonSecondary\<close> are dictionaries unless falsy.
\<close>

definition vendor_colors :: "json \<Rightarrow> BrandColors" where
  "vendor_colors branding =
     (let c = sub branding ''colors''
      in \<lparr>primary = lookup c ''primary'' (JStr ''#000000''),
          secondary = lookup c ''secondary'' JNull,
          accent = lookup c ''accent'' JNull,
          background = lookup c ''background'' JNull,
          text_color = lookup c ''textPrimary'' JNull,
          palette = values_of c\<rparr>)"

definition vendor_typography :: "json \<Rightarrow> BrandTypography" where
  "vendor_typography branding =
     (let t = sub branding ''typography'';
          f = sub t ''fontFamilies'';
          w = sub t ''fontWeights''
      in \<lparr>headings = lookup f ''heading'' (lookup f ''primary'' (JStr ''sans-serif'')),
          body = lookup f ''primary'' (JStr ''sans-serif''),
          weights = (if truthy w then JArr (values_of w) else default_weights),
          base_size = lookup (sub t ''fontSizes'') ''body'' (JStr ''16px'')\<rparr>)"

definition typography_ok :: "json \<Rightarrow> bool" where
  "typography_ok branding =
     (let t = sub branding ''typography''
      in is_obj t \<and> is_obj (sub t ''fontFamilies'') \<and>
         (if truthy (sub t ''fontWeights'') then is_obj (sub t ''fontWeights'') else True) \<and>
         is_obj (sub t ''fontSizes''))"

definition vendor_spacing :: "(json \<Rightarrow> string) \<Rightarrow> json \<Rightarrow> BrandSpacing" where
  "vendor_spacing repr branding =
     (let s = sub branding ''spacing''
      in \<lparr>grid = JStr (py_str repr (lookup s ''baseUnit'' (JInt 8)) @ ''px''),
          gap = (if truthy (lookup s ''borderRadius'' JNull) then lookup s ''borderRadius'' JNull
                 else JNull)\<rparr>)"

definition vendor_button_primary :: "json \<Rightarrow> json \<Rightarrow> ButtonStyle option" where
  "vendor_button_primary components colors_primary =
     (let btn = lookup components ''buttonPrimary'' JNull
      in if truthy btn then
           Some \<lparr>bg = lookup btn ''background'' colors_primary,
                 btn_text = lookup btn ''textColor'' (JStr ''#ffffff''),
                 border_radius = lookup btn ''borderRadius'' (JStr ''4px''),
                 padding = JStr ''12px 24px'',
                 border = JNull\<rparr>
         else None)"

definition vendor_button_secondary :: "json \<Rightarrow> json \<Rightarrow> ButtonStyle option" where
  "vendor_button_secondary components colors_primary =
     (let btn = lookup components ''buttonSecondary'' JNull
      in if truthy btn then
           Some \<lparr>bg = lookup btn ''background'' (JStr ''transparent''),
                 btn_text = lookup btn ''textColor'' colors_primary,
                 border_radius = lookup btn ''borderRadius'' (JStr ''4px''),
                 padding = JStr ''12px 24px'',
                 border = lookup btn ''borderColor'' JNull\<rparr>
         else None)"

definition button_ok :: "json \<Rightarrow> string \<Rightarrow> bool" where
  "button_ok components k =
     (if truthy (lookup components k JNull) then is_obj (lookup components k JNull) else True)"

definition vendor_buttons :: "json \<Rightarrow> json \<Rightarrow> BrandButtons" where
  "vendor_buttons branding colors_primary =
     \<lparr>btn_primary = vendor_button_primary (sub branding ''components'') colors_primary,
      btn_secondary = vendor_button_secondary (sub branding ''components'') colors_primary\<rparr>"

definition buttons_ok :: "json \<Rightarrow> bool" where
  "buttons_ok branding =
     (let c = sub branding ''components''
      in is_obj c \<and> button_ok c ''buttonPrimary'' \<and> button_ok c ''buttonSecondary'')"

definition vendor_logo :: "json \<Rightarrow> json" where
  "vendor_logo branding =
     (let l = lookup (sub branding ''images'') ''logo'' JNull
      in if truthy l then l else lookup branding ''logo'' JNull)"

definition vendor_screenshots :: "json \<Rightarrow> bool \<Rightarrow> json list" where
  "vendor_screenshots data include_screenshots =
     (case field (sub data ''data'') ''screenshot'' of
        Some s \<Rightarrow> if include_screenshots then [s] else []
      | None \<Rightarrow> [])"

definition well_shaped :: "json \<Rightarrow> bool" where
  "well_shaped data =
     (is_obj data \<and> is_obj (sub data ''data'') \<and>
      (let b = sub (sub data ''data'') ''branding''
       in is_obj b \<and> is_obj (sub b ''colors'') \<and> typography_ok b \<and> is_obj (sub b ''spacing'') \<and>
          buttons_ok b \<and> is_obj (sub b ''images'')))"

definition vendor_brand :: "(json \<Rightarrow> string) \<Rightarrow> json \<Rightarrow> string \<Rightarrow> bool \<Rightarrow> BrandData" where
  "vendor_brand repr data u include_screenshots =
     (let b = sub (sub data ''data'') ''branding''
      in \<lparr>url = u,
          colors = vendor_colors b,
          typography = vendor_typography b,
          spacing = vendor_spacing repr b,
          buttons = vendor_buttons b (primary (vendor_colors b)),
          logo_url = vendor_logo b,
          favicon_url = lookup (sub b ''images'') ''favicon'' JNull,
          screenshots = vendor_screenshots data include_screenshots\<rparr>)"

subsection \<open>The visual extractor where it returns\<close>

text \<open>
  The colours \<open>brand_of_reply\<close> computes, read off its code in the same way, and the shape
  of a decoded reply on which it raises nothing.
\<close>

definition reply_colors :: "json \<Rightarrow> BrandColors" where
  "reply_colors data =
     (let c = sub data ''colors''
      in \<lparr>primary = lookup c ''primary'' (JStr ''#000000''),
          secondary = lookup c ''secondary'' JNull,
          accent = lookup c ''accent'' JNull,
          background = lookup c ''background'' (JStr ''#ffffff''),
          text_color = lookup c ''text'' (JStr ''#000000''),
          palette = filter truthy
            [lookup c ''primary'' JNull, lookup c ''secondary'' JNull, lookup c ''accent'' JNull,
             lookup c ''background'' JNull, lookup c ''text'' JNull]\<rparr>)"

definition color_keys :: "string list" where
  "color_keys = [''primary'', ''secondary'', ''accent'', ''background'', ''text'']"

definition reply_shaped :: "json \<Rightarrow> bool" where
  "reply_shaped data =
     (is_obj data \<and> is_obj (sub data ''colors'') \<and> is_obj (sub data ''typography'') \<and>
      is_obj (sub data ''buttons'') \<and> button_ok (sub data ''buttons'') ''primary'' \<and>
      button_ok (sub data ''buttons'') ''secondary'')"

section \<open>The colour similarity scorer of section 4.3\<close>

text \<open>
  Modelled from the spec: \<^verbatim>\<open>GeminiService.calculate_color_similarity\<close> of
  \<^verbatim>\<open>services/gemini.py\<close>, which the tests call and which is not among the sources. Section 4.3
  asks for a distance in a colour space, normalised and mapped to the unit interval by a
  decreasing function, and names the normalised Euclidean distance over RGB; the score is one
  minus that distance. A colour is \<^verbatim>\<open>#RRGGBB\<close> or \<^verbatim>\<open>#RGB\<close>; any other string has no score.
\<close>

definition hex_digit :: "char \<Rightarrow> nat option" where
  "hex_digit c =
     (let n = (of_char c :: nat)
      in if 48 \<le> n \<and> n \<le> 57 then Some (n - 48)
         else if 65 \<le> n \<and> n \<le> 70 then Some (n - 55)
         else if 97 \<le> n \<and> n \<le> 102 then Some (n - 87)
         else None)"

definition hex_byte :: "char \<Rightarrow> char \<Rightarrow> nat option" where
  "hex_byte hi lo =
     (case hex_digit hi of
        None \<Rightarrow> None
      | Some h \<Rightarrow> (case hex_digit lo of None \<Rightarrow> None | Some l \<Rightarrow> Some (16 * h + l)))"

definition rgb_of :: "nat option \<Rightarrow> nat option \<Rightarrow> nat option \<Rightarrow> (nat \<times> nat \<times> nat) option" where
  "rgb_of r g b =
     (case r of
        None \<Rightarrow> None
      | Some x \<Rightarrow>
          (case g of
             None \<Rightarrow> None
           | Some y \<Rightarrow> (case b of None \<Rightarrow> None | Some z \<Rightarrow> Some (x, y, z))))"

fun hex_to_rgb :: "string \<Rightarrow> (nat \<times> nat \<times> nat) option" where
  "hex_to_rgb [h, r1, r2, g1, g2, b1, b2] =
     (if h = CHR ''#'' then rgb_of (hex_byte r1 r2) (hex_byte g1 g2) (hex_byte b1 b2) else None)"
| "hex_to_rgb [h, r, g, b] =
     (if h = CHR ''#'' then rgb_of (hex_byte r r) (hex_byte g g) (hex_byte b b) else None)"
| "hex_to_rgb _ = None"

declare hex_to_rgb.simps [simp del]

fun color_distance :: "nat \<times> nat \<times> nat \<Rightarrow> nat \<times> nat \<times> nat \<Rightarrow> real" where
  "color_distance (r1, g1, b1) (r2, g2, b2) =
     sqrt ((real r1 - real r2)\<^sup>2 + (real g1 - real g2)\<^sup>2 + (real b1 - real b2)\<^sup>2)"

definition max_distance :: real where
  "max_distance = sqrt (3 * 255\<^sup>2)"

definition calculate_color_similarity :: "string \<Rightarrow> string \<Rightarrow> real option" where
  "calculate_color_similarity color1 color2 =
     (case hex_to_rgb color1 of
        None \<Rightarrow> None
      | Some c1 \<Rightarrow>
          (case hex_to_rgb color2 of
             None \<Rightarrow> None
           | Some c2 \<Rightarrow> Some (1 - color_distance c1 c2 / max_distance)))"

section \<open>Example inputs\<close>

text \<open>
  The payload of the end-to-end scenario of section 8, payloads with a malformed container
  and with an empty button object, and two stand-ins for the library where an example needs
  one: a rendering for values that no example renders, and a decoder given by a finite table
  of texts, which rejects every other text.
\<close>

definition scenario_payload :: json where
  "scenario_payload =
     JObj [(''data'', JObj [(''branding'', JObj
       [(''colors'', JObj [(''primary'', JStr ''#111111''), (''textPrimary'', JStr ''#222222'')]),
        (''components'', JObj [(''buttonPrimary'', JObj
           [(''background'', JStr ''#111111''), (''textColor'', JStr ''#ffffff''),
            (''borderRadius'', JStr ''8px'')])])])])]"

definition null_branding_payload :: json where
  "null_branding_payload = JObj [(''data'', JObj [(''branding'', JNull)])]"

definition empty_button_payload :: json where
  "empty_button_payload =
     JObj [(''data'', JObj [(''branding'', JObj
       [(''components'', JObj [(''buttonPrimary'', JObj [])])])])]"

definition typography_payload :: json where
  "typography_payload =
     JObj [(''data'', JObj [(''branding'', JObj
       [(''typography'', JObj
          [(''fontFamilies'', JObj [(''primary'', JStr ''Inter'')]),
           (''fontWeights'', JObj [(''bold'', JInt 700), (''regular'', JInt 400)])])])])]"

text \<open>
  Replies of the model, each with the value \<^verbatim>\<open>json.loads\<close> gives for it: the reply of the
  end-to-end scenario of section 8 (inside its fence), a reply whose primary colour is the
  empty string, and the empty object.
\<close>

definition scenario_reply :: string where
  \<open>scenario_reply =
     ''{"colors":{"primary":"#FF90E8","background":"#FFFFFF","text":"#000000"},'' @
     ''"typography":{"headings":"Mabry","body":"Mabry"},"buttons":{}}''\<close>

definition scenario_reply_value :: json where
  "scenario_reply_value =
     JObj [(''colors'', JObj [(''primary'', JStr ''#FF90E8''), (''background'', JStr ''#FFFFFF''),
                             (''text'', JStr ''#000000'')]),
           (''typography'', JObj [(''headings'', JStr ''Mabry''), (''body'', JStr ''Mabry'')]),
           (''buttons'', JObj [])]"

definition empty_primary_reply :: string where
  \<open>empty_primary_reply = ''{"colors": {"primary": ""}}''\<close>

definition empty_primary_value :: json where
  "empty_primary_value = JObj [(''colors'', JObj [(''primary'', JStr [])])]"

definition empty_object_reply :: string where
  "empty_object_reply = ''{}''"

definition no_repr :: "json \<Rightarrow> string" where
  "no_repr v = []"

definition loads_table :: "(string \<times> json) list \<Rightarrow> string \<Rightarrow> py_error + json" where
  "loads_table table s = (case map_of table s of Some v \<Rightarrow> Inr v | None \<Rightarrow> Inl JSONDecodeError)"


text \<open>
  Further inputs: a payload whose \<^verbatim>\<open>fontWeights\<close> is a list, a payload with logo, favicon and
  typography, a reply of a thousand opening brackets with the decoder's outcome on it
  (\<^verbatim>\<open>json.loads\<close> exhausts the recursion limit and raises \<^verbatim>\<open>RecursionError\<close>), a reply whose only
  colour is a black text, a reply whose \<^verbatim>\<open>colors\<close> is \<^verbatim>\<open>null\<close>, and a key with a character beyond
  ASCII. \<open>ascii_client\<close> stands in for \<^verbatim>\<open>httpx.AsyncClient\<close>, which encodes the header values
  as ASCII; the client it builds is represented by its \<^verbatim>\<open>Authorization\<close> header.
  \<open>any_client\<close> stands in for \<^verbatim>\<open>anthropic.AsyncAnthropic\<close> and keeps the key.
\<close>

definition list_weights_payload :: json where
  "list_weights_payload =
     JObj [(''data'', JObj [(''branding'', JObj
       [(''typography'', JObj [(''fontWeights'', JArr [JInt 400, JInt 700])])])])]"

definition images_payload :: json where
  "images_payload =
     JObj [(''data'', JObj
       [(''branding'', JObj
          [(''colors'', JObj [(''accent'', JStr ''#ff0000'')]),
           (''spacing'', JObj [(''baseUnit'', JInt 4), (''borderRadius'', JStr ''6px'')]),
           (''images'', JObj [(''logo'', JStr ''https://example.com/logo.png''),
                             (''favicon'', JStr ''https://example.com/favicon.ico'')])]),
        (''screenshot'', JStr ''https://example.com/shot.png'')])]"

definition deep_reply :: string where
  "deep_reply = replicate 1000 (CHR ''['')"

definition loads_deep :: "string \<Rightarrow> py_error + json" where
  "loads_deep s = (if s = deep_reply then Inl RecursionError else Inl JSONDecodeError)"

definition black_text_reply :: string where
  \<open>black_text_reply = ''{"colors": {"text": "#000000"}}''\<close>

definition black_text_value :: json where
  "black_text_value = JObj [(''colors'', JObj [(''text'', JStr ''#000000'')])]"

definition null_colors_reply :: string where
  \<open>null_colors_reply = ''{"colors": null}''\<close>

definition null_colors_value :: json where
  "null_colors_value = JObj [(''colors'', JNull)]"

definition non_ascii_key :: string where
  "non_ascii_key = [CHR ''k'', CHR 0xE9, CHR ''y'']"

definition is_ascii :: "char \<Rightarrow> bool" where
  "is_ascii c = ((of_char c :: nat) < 128)"

definition ascii_client :: "string \<Rightarrow> py_error + string" where
  "ascii_client header =
     (if list_all is_ascii header then Inr header else Inl UnicodeEncodeError)"

definition any_client :: "string \<Rightarrow> py_error + string" where
  "any_client key = Inr key"

section \<open>Reading decoded values\<close>

lemma and_then_Inr [simp]: "and_then (Inr v) f = f v"
  by (simp add: and_then_def)

lemma and_then_Inl [simp]: "and_then (Inl e) f = Inl e"
  by (simp add: and_then_def)

text \<open>
  The dictionary operations in terms of the total readings: they succeed on dictionaries
  and raise elsewhere.
\<close>

lemma py_get_eq: "py_get j k d = (if is_obj j then Inr (lookup j k d) else Inl AttributeError)"
  by (cases j) (simp_all add: lookup_def)

lemma py_values_eq: "py_values j = (if is_obj j then Inr (values_of j) else Inl AttributeError)"
  by (cases j) simp_all

lemma py_getitem_eq:
  "py_getitem j k =
     (if is_obj j then (case field j k of Some v \<Rightarrow> Inr v | None \<Rightarrow> Inl KeyError)
      else Inl TypeError)"
  by (cases j) simp_all

lemma py_contains_obj: "is_obj j \<Longrightarrow> py_contains k j = Inr (field j k \<noteq> None)"
  by (cases j) (auto simp: map_of_eq_None_iff)

lemma truthy_lookup_field:
  "truthy (lookup j k JNull) \<Longrightarrow> field j k = Some (lookup j k JNull)"
  by (auto simp: lookup_def split: option.splits)

lemma values_of_falsy: "is_obj j \<Longrightarrow> \<not> truthy j \<Longrightarrow> values_of j = []"
  by (cases j) simp_all

section \<open>The structured extractor and its total reading\<close>

text \<open>
  Each part of \<open>extract_brand\<close> equals its total reading where the containers it reads
  are dictionaries, and raises \<^verbatim>\<open>AttributeError\<close> where one is not.
\<close>

lemma extract_colors_eq:
  "extract_colors branding =
     (if is_obj branding \<and> is_obj (sub branding ''colors'') then Inr (vendor_colors branding)
      else Inl AttributeError)"
  by (simp add: extract_colors_def py_get_eq py_values_eq vendor_colors_def sub_def Let_def values_of_falsy)

lemma extract_typography_eq:
  "extract_typography branding =
     (if is_obj branding \<and> typography_ok branding then Inr (vendor_typography branding)
      else Inl AttributeError)"
  by (simp add: extract_typography_def py_get_eq py_values_eq vendor_typography_def
      typography_ok_def sub_def Let_def)

lemma extract_spacing_eq:
  "extract_spacing repr branding =
     (if is_obj branding \<and> is_obj (sub branding ''spacing'') then Inr (vendor_spacing repr branding)
      else Inl AttributeError)"
  by (simp add: extract_spacing_def py_get_eq vendor_spacing_def sub_def Let_def)

lemma extract_button_primary_eq:
  "extract_button_primary components cp =
     (if is_obj components \<and> button_ok components ''buttonPrimary''
      then Inr (vendor_button_primary components cp) else Inl AttributeError)"
  by (auto simp: extract_button_primary_def py_get_eq py_getitem_eq vendor_button_primary_def
      button_ok_def Let_def dest: truthy_lookup_field)

lemma extract_button_secondary_eq:
  "extract_button_secondary components cp =
     (if is_obj components \<and> button_ok components ''buttonSecondary''
      then Inr (vendor_button_secondary components cp) else Inl AttributeError)"
  by (auto simp: extract_button_secondary_def py_get_eq py_getitem_eq vendor_button_secondary_def
      button_ok_def Let_def dest: truthy_lookup_field)

lemma extract_buttons_eq:
  "extract_buttons branding cp =
     (if is_obj branding \<and> buttons_ok branding then Inr (vendor_buttons branding cp)
      else Inl AttributeError)"
  by (simp add: extract_buttons_def py_get_eq extract_button_primary_eq
      extract_button_secondary_eq vendor_buttons_def buttons_ok_def sub_def Let_def)

lemma extract_images_eq:
  "extract_images branding =
     (if is_obj branding \<and> is_obj (sub branding ''images'')
      then Inr (vendor_logo branding, lookup (sub branding ''images'') ''favicon'' JNull)
      else Inl AttributeError)"
  by (simp add: extract_images_def py_get_eq vendor_logo_def sub_def Let_def)

lemma field_sub_Some: "field (sub j k) k' = Some v \<Longrightarrow> field j k = Some (sub j k)"
  by (auto simp: sub_def lookup_def split: option.splits)

lemma extract_screenshots_eq:
  assumes "is_obj data" and "is_obj (sub data ''data'')"
  shows "extract_screenshots data inc = Inr (vendor_screenshots data inc)"
proof (cases inc)
  case False
  then show ?thesis
    by (simp add: extract_screenshots_def vendor_screenshots_def split: option.splits)
next
  case True
  have get: "py_get data ''data'' (JObj []) = Inr (sub data ''data'')"
    using assms by (simp add: py_get_eq sub_def)
  show ?thesis
  proof (cases "field (sub data ''data'') ''screenshot''")
    case None
    then show ?thesis
      using True assms get
      by (simp add: extract_screenshots_def vendor_screenshots_def py_contains_obj)
  next
    case (Some s)
    then have "field data ''data'' = Some (sub data ''data'')"
      by (rule field_sub_Some)
    then show ?thesis
      using True assms get Some
      by (simp add: extract_screenshots_def vendor_screenshots_def py_contains_obj py_getitem_eq)
  qed
qed

lemma extract_brand_eq:
  "extract_brand repr (Inr data) u inc =
     (if well_shaped data then Inr (vendor_brand repr data u inc) else Inl AttributeError)"
  by (simp add: extract_brand_def py_get_eq extract_screenshots_eq extract_colors_eq
      extract_typography_eq extract_spacing_eq extract_buttons_eq extract_images_eq
      well_shaped_def vendor_brand_def sub_def [symmetric] Let_def)

text \<open>Evaluation on the example payloads.\<close>

lemma sub_simps:
  "sub (JObj kvs) k = (case map_of kvs k of Some v \<Rightarrow> v | None \<Rightarrow> JObj [])"
  by (simp add: sub_def lookup_def)

lemmas vendor_defs =
  well_shaped_def vendor_brand_def vendor_colors_def vendor_typography_def typography_ok_def
  vendor_spacing_def vendor_buttons_def vendor_button_primary_def vendor_button_secondary_def
  button_ok_def buttons_ok_def vendor_logo_def vendor_screenshots_def

lemma digits_8: "digits 8 = ''8''"
  by (simp add: digits.simps)

lemma extract_brand_Inr:
  "extract_brand repr (Inr data) u inc = Inr bd \<Longrightarrow>
     well_shaped data \<and> bd = vendor_brand repr data u inc"
  by (simp add: extract_brand_eq split: if_splits)

lemma scenario_result:
  "extract_brand repr (Inr scenario_payload) u inc =
     Inr \<lparr>url = u,
       colors = \<lparr>primary = JStr ''#111111'', secondary = JNull, accent = JNull, background = JNull,
         text_color = JStr ''#222222'', palette = [JStr ''#111111'', JStr ''#222222'']\<rparr>,
       typography = \<lparr>headings = JStr ''sans-serif'', body = JStr ''sans-serif'',
         weights = default_weights, base_size = JStr ''16px''\<rparr>,
       spacing = \<lparr>grid = JStr ''8px'', gap = JNull\<rparr>,
       buttons = \<lparr>btn_primary = Some \<lparr>bg = JStr ''#111111'', btn_text = JStr ''#ffffff'',
         border_radius = JStr ''8px'', padding = JStr ''12px 24px'', border = JNull\<rparr>,
         btn_secondary = None\<rparr>,
       logo_url = JNull, favicon_url = JNull, screenshots = []\<rparr>"
  by (simp add: extract_brand_eq scenario_payload_def vendor_defs sub_def lookup_def
      str_int_def digits_8)

section \<open>The structured extractor: claims\<close>

text \<open>
  C3. For the payload of the end-to-end scenario, whatever the URL and whether or not a
  screenshot was asked for, \<open>extract_brand\<close> returns a \<open>BrandData\<close> whose primary colour is
  \<^verbatim>\<open>#111111\<close>, whose text colour is the vendor's \<^verbatim>\<open>textPrimary\<close>, \<^verbatim>\<open>#222222\<close>, and whose primary
  button has background \<^verbatim>\<open>#111111\<close>, border radius \<^verbatim>\<open>8px\<close> and padding \<^verbatim>\<open>12px 24px\<close>.
\<close>

theorem extract_brand_scenario:
  "\<exists>bd b. extract_brand repr (Inr scenario_payload) u inc = Inr bd \<and>
     primary (colors bd) = JStr ''#111111'' \<and>
     text_color (colors bd) = JStr ''#222222'' \<and>
     btn_primary (buttons bd) = Some b \<and>
     bg b = JStr ''#111111'' \<and>
     border_radius b = JStr ''8px'' \<and>
     padding b = JStr ''12px 24px''"
  by (simp add: scenario_result)

text \<open>
  C1, as stated, fails: a response whose \<^verbatim>\<open>branding\<close> is \<^verbatim>\<open>null\<close> was delivered by the transport,
  and \<open>extract_brand\<close> raises \<^verbatim>\<open>AttributeError\<close> at \<^verbatim>\<open>branding.get("colors", {})\<close>.
\<close>

theorem extract_brand_null_branding:
  "extract_brand no_repr (Inr null_branding_payload) ''https://example.com'' False =
     Inl AttributeError"
  by (simp add: extract_brand_eq null_branding_payload_def vendor_defs sub_def lookup_def)

lemma digits_4: "digits 4 = ''4''"
  by (simp add: digits.simps)

text \<open>
  C1, amended. A transport failure propagates unchanged. A decoded response that is not
  \<open>well_shaped\<close> raises \<^verbatim>\<open>AttributeError\<close>. A \<open>well_shaped\<close> response yields a \<open>BrandData\<close>, and
  each field is read with its default: primary colour \<^verbatim>\<open>#000000\<close>, the other colours absent,
  the palette the colour values in the order of the payload; headings and body
  \<^verbatim>\<open>sans-serif\<close>, weights 400, 600, 700, base size \<^verbatim>\<open>16px\<close>; grid from \<^verbatim>\<open>baseUnit\<close> (default 8), gap
  the \<^verbatim>\<open>borderRadius\<close> when it is truthy; a button absent when its component is absent or
  falsy; the logo \<^verbatim>\<open>images.logo\<close> when truthy and the top-level \<^verbatim>\<open>logo\<close> otherwise; the favicon
  \<^verbatim>\<open>images.favicon\<close> when that key is present, and absent when neither it nor a top-level
  \<^verbatim>\<open>favicon\<close> is present; the screenshot only when asked for and supplied. The empty response
  yields the defaults throughout.
\<close>

theorem extract_brand_well_shaped:
  "extract_brand repr (Inl e) u inc = Inl e \<and>
   (\<not> well_shaped data \<longrightarrow> extract_brand repr (Inr data) u inc = Inl AttributeError) \<and>
   (well_shaped data \<longrightarrow>
      (\<exists>bd. extract_brand repr (Inr data) u inc = Inr bd \<and>
         (let b = sub (sub data ''data'') ''branding'';
              c = sub b ''colors'';
              t = sub b ''typography'';
              s = sub b ''spacing'';
              i = sub b ''images''
          in url bd = u \<and>
             primary (colors bd) = lookup c ''primary'' (JStr ''#000000'') \<and>
             secondary (colors bd) = lookup c ''secondary'' JNull \<and>
             accent (colors bd) = lookup c ''accent'' JNull \<and>
             background (colors bd) = lookup c ''background'' JNull \<and>
             text_color (colors bd) = lookup c ''textPrimary'' JNull \<and>
             palette (colors bd) = values_of c \<and>
             headings (typography bd) =
               lookup (sub t ''fontFamilies'') ''heading''
                 (lookup (sub t ''fontFamilies'') ''primary'' (JStr ''sans-serif'')) \<and>
             body (typography bd) = lookup (sub t ''fontFamilies'') ''primary'' (JStr ''sans-serif'') \<and>
             weights (typography bd) =
               (if truthy (sub t ''fontWeights'') then JArr (values_of (sub t ''fontWeights''))
                else JArr [JInt 400, JInt 600, JInt 700]) \<and>
             base_size (typography bd) = lookup (sub t ''fontSizes'') ''body'' (JStr ''16px'') \<and>
             grid (spacing bd) = JStr (py_str repr (lookup s ''baseUnit'' (JInt 8)) @ ''px'') \<and>
             gap (spacing bd) =
               (if truthy (lookup s ''borderRadius'' JNull) then lookup s ''borderRadius'' JNull
                else JNull) \<and>
             (\<not> truthy (lookup (sub b ''components'') ''buttonPrimary'' JNull) \<longrightarrow>
                btn_primary (buttons bd) = None) \<and>
             (\<not> truthy (lookup (sub b ''components'') ''buttonSecondary'' JNull) \<longrightarrow>
                btn_secondary (buttons bd) = None) \<and>
             logo_url bd =
               (if truthy (lookup i ''logo'' JNull) then lookup i ''logo'' JNull
                else lookup b ''logo'' JNull) \<and>
             (field i ''favicon'' \<noteq> None \<or> field b ''favicon'' = None \<longrightarrow>
                favicon_url bd = lookup i ''favicon'' JNull) \<and>
             screenshots bd =
               (case field (sub data ''data'') ''screenshot'' of
                  Some x \<Rightarrow> if inc then [x] else []
                | None \<Rightarrow> [])))) \<and>
   extract_brand repr (Inr (JObj [])) u inc =
     Inr \<lparr>url = u,
       colors = \<lparr>primary = JStr ''#000000'', secondary = JNull, accent = JNull, background = JNull,
         text_color = JNull, palette = []\<rparr>,
       typography = \<lparr>headings = JStr ''sans-serif'', body = JStr ''sans-serif'',
         weights = JArr [JInt 400, JInt 600, JInt 700], base_size = JStr ''16px''\<rparr>,
       spacing = \<lparr>grid = JStr ''8px'', gap = JNull\<rparr>,
       buttons = \<lparr>btn_primary = None, btn_secondary = None\<rparr>,
       logo_url = JNull, favicon_url = JNull, screenshots = []\<rparr>"
proof -
  have err: "extract_brand repr (Inl e) u inc = Inl e"
    by (simp add: extract_brand_def)
  have bad: "\<not> well_shaped data \<longrightarrow> extract_brand repr (Inr data) u inc = Inl AttributeError"
    by (simp add: extract_brand_eq)
  have good: "well_shaped data \<longrightarrow>
      (\<exists>bd. extract_brand repr (Inr data) u inc = Inr bd \<and>
         (let b = sub (sub data ''data'') ''branding'';
              c = sub b ''colors'';
              t = sub b ''typography'';
              s = sub b ''spacing'';
              i = sub b ''images''
          in url bd = u \<and>
             primary (colors bd) = lookup c ''primary'' (JStr ''#000000'') \<and>
             secondary (colors bd) = lookup c ''secondary'' JNull \<and>
             accent (colors bd) = lookup c ''accent'' JNull \<and>
             background (colors bd) = lookup c ''background'' JNull \<and>
             text_color (colors bd) = lookup c ''textPrimary'' JNull \<and>
             palette (colors bd) = values_of c \<and>
             headings (typography bd) =
               lookup (sub t ''fontFamilies'') ''heading''
                 (lookup (sub t ''fontFamilies'') ''primary'' (JStr ''sans-serif'')) \<and>
             body (typography bd) = lookup (sub t ''fontFamilies'') ''primary'' (JStr ''sans-serif'') \<and>
             weights (typography bd) =
               (if truthy (sub t ''fontWeights'') then JArr (values_of (sub t ''fontWeights''))
                else JArr [JInt 400, JInt 600, JInt 700]) \<and>
             base_size (typography bd) = lookup (sub t ''fontSizes'') ''body'' (JStr ''16px'') \<and>
             grid (spacing bd) = JStr (py_str repr (lookup s ''baseUnit'' (JInt 8)) @ ''px'') \<and>
             gap (spacing bd) =
               (if truthy (lookup s ''borderRadius'' JNull) then lookup s ''borderRadius'' JNull
                else JNull) \<and>
             (\<not> truthy (lookup (sub b ''components'') ''buttonPrimary'' JNull) \<longrightarrow>
                btn_primary (buttons bd) = None) \<and>
             (\<not> truthy (lookup (sub b ''components'') ''buttonSecondary'' JNull) \<longrightarrow>
                btn_secondary (buttons bd) = None) \<and>
             logo_url bd =
               (if truthy (lookup i ''logo'' JNull) then lookup i ''logo'' JNull
                else lookup b ''logo'' JNull) \<and>
             (field i ''favicon'' \<noteq> None \<or> field b ''favicon'' = None \<longrightarrow>
                favicon_url bd = lookup i ''favicon'' JNull) \<and>
             screenshots bd =
               (case field (sub data ''data'') ''screenshot'' of
                  Some x \<Rightarrow> if inc then [x] else []
                | None \<Rightarrow> [])))"
    by (simp add: extract_brand_eq vendor_brand_def vendor_colors_def vendor_typography_def
        vendor_spacing_def vendor_buttons_def vendor_button_primary_def
        vendor_button_secondary_def vendor_logo_def vendor_screenshots_def default_weights_def
        Let_def)
  have ok: "well_shaped (JObj [])"
    by (simp add: vendor_defs sub_def lookup_def)
  have empty: "vendor_brand repr (JObj []) u inc =
     \<lparr>url = u,
       colors = \<lparr>primary = JStr ''#000000'', secondary = JNull, accent = JNull, background = JNull,
         text_color = JNull, palette = []\<rparr>,
       typography = \<lparr>headings = JStr ''sans-serif'', body = JStr ''sans-serif'',
         weights = JArr [JInt 400, JInt 600, JInt 700], base_size = JStr ''16px''\<rparr>,
       spacing = \<lparr>grid = JStr ''8px'', gap = JNull\<rparr>,
       buttons = \<lparr>btn_primary = None, btn_secondary = None\<rparr>,
       logo_url = JNull, favicon_url = JNull, screenshots = []\<rparr>"
    by (simp add: vendor_defs sub_def lookup_def str_int_def digits_8 default_weights_def)
  have "extract_brand repr (Inr (JObj [])) u inc = Inr (vendor_brand repr (JObj []) u inc)"
    using ok by (simp add: extract_brand_eq)
  with err bad good show ?thesis
    by (simp only: empty simp_thms)
qed

theorem extract_brand_well_shaped_witness:
  "well_shaped images_payload \<and> \<not> well_shaped null_branding_payload \<and>
   (\<exists>bd. extract_brand no_repr (Inr images_payload) ''https://example.com'' True = Inr bd \<and>
      url bd = ''https://example.com'' \<and>
      primary (colors bd) = JStr ''#000000'' \<and>
      secondary (colors bd) = JNull \<and>
      accent (colors bd) = JStr ''#ff0000'' \<and>
      palette (colors bd) = [JStr ''#ff0000''] \<and>
      headings (typography bd) = JStr ''sans-serif'' \<and>
      body (typography bd) = JStr ''sans-serif'' \<and>
      weights (typography bd) = JArr [JInt 400, JInt 600, JInt 700] \<and>
      base_size (typography bd) = JStr ''16px'' \<and>
      grid (spacing bd) = JStr ''4px'' \<and>
      gap (spacing bd) = JStr ''6px'' \<and>
      btn_primary (buttons bd) = None \<and>
      btn_secondary (buttons bd) = None \<and>
      logo_url bd = JStr ''https://example.com/logo.png'' \<and>
      favicon_url bd = JStr ''https://example.com/favicon.ico'' \<and>
      screenshots bd = [JStr ''https://example.com/shot.png'']) \<and>
   extract_brand no_repr (Inr null_branding_payload) ''https://example.com'' True =
     Inl AttributeError \<and>
   extract_brand no_repr (Inl (UpstreamError ''503'')) ''https://example.com'' True =
     Inl (UpstreamError ''503'')"
proof -
  have 1: "well_shaped images_payload"
    by (simp add: images_payload_def vendor_defs sub_def lookup_def)
  have 2: "\<not> well_shaped null_branding_payload"
    by (simp add: null_branding_payload_def vendor_defs sub_def lookup_def)
  have d: "sub images_payload ''data'' =
      JObj [(''branding'', JObj
          [(''colors'', JObj [(''accent'', JStr ''#ff0000'')]),
           (''spacing'', JObj [(''baseUnit'', JInt 4), (''borderRadius'', JStr ''6px'')]),
           (''images'', JObj [(''logo'', JStr ''https://example.com/logo.png''),
                             (''favicon'', JStr ''https://example.com/favicon.ico'')])]),
        (''screenshot'', JStr ''https://example.com/shot.png'')]"
    by (simp add: images_payload_def sub_def lookup_def)
  note images = extract_brand_well_shaped [of no_repr "UpstreamError ''503''"
      "''https://example.com''" True images_payload]
  note null = extract_brand_well_shaped [of no_repr "UpstreamError ''503''"
      "''https://example.com''" True null_branding_payload]
  from images 1 obtain bd
    where r: "extract_brand no_repr (Inr images_payload) ''https://example.com'' True = Inr bd"
      and f: "let b = sub (sub images_payload ''data'') ''branding'';
              c = sub b ''colors'';
              t = sub b ''typography'';
              s = sub b ''spacing'';
              i = sub b ''images''
          in url bd = ''https://example.com'' \<and>
             primary (colors bd) = lookup c ''primary'' (JStr ''#000000'') \<and>
             secondary (colors bd) = lookup c ''secondary'' JNull \<and>
             accent (colors bd) = lookup c ''accent'' JNull \<and>
             background (colors bd) = lookup c ''background'' JNull \<and>
             text_color (colors bd) = lookup c ''textPrimary'' JNull \<and>
             palette (colors bd) = values_of c \<and>
             headings (typography bd) =
               lookup (sub t ''fontFamilies'') ''heading''
                 (lookup (sub t ''fontFamilies'') ''primary'' (JStr ''sans-serif'')) \<and>
             body (typography bd) = lookup (sub t ''fontFamilies'') ''primary'' (JStr ''sans-serif'') \<and>
             weights (typography bd) =
               (if truthy (sub t ''fontWeights'') then JArr (values_of (sub t ''fontWeights''))
                else JArr [JInt 400, JInt 600, JInt 700]) \<and>
             base_size (typography bd) = lookup (sub t ''fontSizes'') ''body'' (JStr ''16px'') \<and>
             grid (spacing bd) = JStr (py_str no_repr (lookup s ''baseUnit'' (JInt 8)) @ ''px'') \<and>
             gap (spacing bd) =
               (if truthy (lookup s ''borderRadius'' JNull) then lookup s ''borderRadius'' JNull
                else JNull) \<and>
             (\<not> truthy (lookup (sub b ''components'') ''buttonPrimary'' JNull) \<longrightarrow>
                btn_primary (buttons bd) = None) \<and>
             (\<not> truthy (lookup (sub b ''components'') ''buttonSecondary'' JNull) \<longrightarrow>
                btn_secondary (buttons bd) = None) \<and>
             logo_url bd =
               (if truthy (lookup i ''logo'' JNull) then lookup i ''logo'' JNull
                else lookup b ''logo'' JNull) \<and>
             (field i ''favicon'' \<noteq> None \<or> field b ''favicon'' = None \<longrightarrow>
                favicon_url bd = lookup i ''favicon'' JNull) \<and>
             screenshots bd =
               (case field (sub images_payload ''data'') ''screenshot'' of
                  Some x \<Rightarrow> if True then [x] else []
                | None \<Rightarrow> [])"
    by blast
  have g: "url bd = ''https://example.com'' \<and>
      primary (colors bd) = JStr ''#000000'' \<and>
      secondary (colors bd) = JNull \<and>
      accent (colors bd) = JStr ''#ff0000'' \<and>
      palette (colors bd) = [JStr ''#ff0000''] \<and>
      headings (typography bd) = JStr ''sans-serif'' \<and>
      body (typography bd) = JStr ''sans-serif'' \<and>
      weights (typography bd) = JArr [JInt 400, JInt 600, JInt 700] \<and>
      base_size (typography bd) = JStr ''16px'' \<and>
      grid (spacing bd) = JStr ''4px'' \<and>
      gap (spacing bd) = JStr ''6px'' \<and>
      btn_primary (buttons bd) = None \<and>
      btn_secondary (buttons bd) = None \<and>
      logo_url bd = JStr ''https://example.com/logo.png'' \<and>
      favicon_url bd = JStr ''https://example.com/favicon.ico'' \<and>
      screenshots bd = [JStr ''https://example.com/shot.png'']"
    using f by (simp add: d Let_def sub_simps lookup_def str_int_def digits_4)
  have n: "extract_brand no_repr (Inr null_branding_payload) ''https://example.com'' True =
      Inl AttributeError"
    using null 2 by blast
  have e: "extract_brand no_repr (Inl (UpstreamError ''503'')) ''https://example.com'' True =
      Inl (UpstreamError ''503'')"
    using null by blast
  show ?thesis
    using 1 2 r g n e by blast
qed

lemma vendor_button_primary_field:
  "vendor_button_primary c cp =
     (case field c ''buttonPrimary'' of
        None \<Rightarrow> None
      | Some btn \<Rightarrow>
          if truthy btn then
            Some \<lparr>bg = lookup btn ''background'' cp,
                  btn_text = lookup btn ''textColor'' (JStr ''#ffffff''),
                  border_radius = lookup btn ''borderRadius'' (JStr ''4px''),
                  padding = JStr ''12px 24px'',
                  border = JNull\<rparr>
          else None)"
  by (simp add: vendor_button_primary_def lookup_def split: option.splits)

lemma vendor_button_secondary_field:
  "vendor_button_secondary c cp =
     (case field c ''buttonSecondary'' of
        None \<Rightarrow> None
      | Some btn \<Rightarrow>
          if truthy btn then
            Some \<lparr>bg = lookup btn ''background'' (JStr ''transparent''),
                  btn_text = lookup btn ''textColor'' cp,
                  border_radius = lookup btn ''borderRadius'' (JStr ''4px''),
                  padding = JStr ''12px 24px'',
                  border = lookup btn ''borderColor'' JNull\<rparr>
          else None)"
  by (simp add: vendor_button_secondary_def lookup_def split: option.splits)

text \<open>
  C5, as stated, fails: in this payload the \<^verbatim>\<open>buttonPrimary\<close> component object is present and
  empty, and the primary button of the result is absent, where the claim has a button built
  from the defaults. The guard is \<^verbatim>\<open>if components.get("buttonPrimary")\<close>, which an empty
  object does not pass.
\<close>

theorem extract_brand_empty_button:
  "field (sub (sub (sub empty_button_payload ''data'') ''branding'') ''components'')
     ''buttonPrimary'' = Some (JObj []) \<and>
   extract_brand no_repr (Inr empty_button_payload) ''https://example.com'' False =
     Inr \<lparr>url = ''https://example.com'',
       colors = \<lparr>primary = JStr ''#000000'', secondary = JNull, accent = JNull, background = JNull,
         text_color = JNull, palette = []\<rparr>,
       typography = \<lparr>headings = JStr ''sans-serif'', body = JStr ''sans-serif'',
         weights = JArr [JInt 400, JInt 600, JInt 700], base_size = JStr ''16px''\<rparr>,
       spacing = \<lparr>grid = JStr ''8px'', gap = JNull\<rparr>,
       buttons = \<lparr>btn_primary = None, btn_secondary = None\<rparr>,
       logo_url = JNull, favicon_url = JNull, screenshots = []\<rparr>"
  by (simp add: extract_brand_eq empty_button_payload_def vendor_defs sub_def lookup_def
      str_int_def digits_8 default_weights_def)

text \<open>
  C5, amended. Whenever \<open>extract_brand\<close> returns, each button slot is absent when its
  component object is absent or falsy (\<^verbatim>\<open>null\<close>, empty), and is otherwise the \<open>ButtonStyle\<close> with
  \<open>bg\<close> from \<^verbatim>\<open>background\<close> (default: the canonical primary colour for the primary button,
  \<^verbatim>\<open>transparent\<close> for the secondary), text from \<^verbatim>\<open>textColor\<close> (default \<^verbatim>\<open>#ffffff\<close>, respectively the
  canonical primary colour), \<open>border_radius\<close> from \<^verbatim>\<open>borderRadius\<close> (default \<^verbatim>\<open>4px\<close>), padding
  \<^verbatim>\<open>12px 24px\<close>, and a border only for the secondary button, from \<^verbatim>\<open>borderColor\<close>.
\<close>

theorem button_mapping:
  assumes "extract_brand repr (Inr data) u inc = Inr bd"
  shows
    "btn_primary (buttons bd) =
       (case field (sub (sub (sub data ''data'') ''branding'') ''components'') ''buttonPrimary'' of
          None \<Rightarrow> None
        | Some btn \<Rightarrow>
            if truthy btn then
              Some \<lparr>bg = lookup btn ''background'' (primary (colors bd)),
                    btn_text = lookup btn ''textColor'' (JStr ''#ffffff''),
                    border_radius = lookup btn ''borderRadius'' (JStr ''4px''),
                    padding = JStr ''12px 24px'',
                    border = JNull\<rparr>
            else None) \<and>
     btn_secondary (buttons bd) =
       (case field (sub (sub (sub data ''data'') ''branding'') ''components'') ''buttonSecondary'' of
          None \<Rightarrow> None
        | Some btn \<Rightarrow>
            if truthy btn then
              Some \<lparr>bg = lookup btn ''background'' (JStr ''transparent''),
                    btn_text = lookup btn ''textColor'' (primary (colors bd)),
                    border_radius = lookup btn ''borderRadius'' (JStr ''4px''),
                    padding = JStr ''12px 24px'',
                    border = lookup btn ''borderColor'' JNull\<rparr>
            else None)"
proof -
  define c where "c = sub (sub (sub data ''data'') ''branding'') ''components''"
  define cp where "cp = primary (colors bd)"
  have bd: "bd = vendor_brand repr data u inc"
    using assms by (simp add: extract_brand_Inr)
  have p: "btn_primary (buttons bd) = vendor_button_primary c cp"
    and s: "btn_secondary (buttons bd) = vendor_button_secondary c cp"
    by (simp_all add: cp_def c_def bd vendor_brand_def vendor_buttons_def Let_def)
  show ?thesis
    unfolding p s c_def [symmetric] cp_def [symmetric]
    by (simp only: vendor_button_primary_field vendor_button_secondary_field simp_thms)
qed

theorem button_mapping_witness:
  "extract_brand no_repr (Inr scenario_payload) ''https://example.com'' False =
     Inr (vendor_brand no_repr scenario_payload ''https://example.com'' False) \<and>
   btn_primary (buttons (vendor_brand no_repr scenario_payload ''https://example.com'' False)) =
     Some \<lparr>bg = JStr ''#111111'', btn_text = JStr ''#ffffff'', border_radius = JStr ''8px'',
           padding = JStr ''12px 24px'', border = JNull\<rparr> \<and>
   btn_secondary (buttons (vendor_brand no_repr scenario_payload ''https://example.com'' False)) =
     None"
proof -
  have r: "extract_brand no_repr (Inr scenario_payload) ''https://example.com'' False =
      Inr (vendor_brand no_repr scenario_payload ''https://example.com'' False)"
    by (simp add: extract_brand_eq scenario_payload_def vendor_defs sub_def lookup_def)
  have c: "sub (sub (sub scenario_payload ''data'') ''branding'') ''components'' =
      JObj [(''buttonPrimary'', JObj [(''background'', JStr ''#111111''),
        (''textColor'', JStr ''#ffffff''), (''borderRadius'', JStr ''8px'')])]"
    by (simp add: scenario_payload_def sub_def lookup_def)
  show ?thesis
    using button_mapping [OF r] by (simp add: r c lookup_def)
qed

text \<open>
  C6, as stated, fails: in this payload \<^verbatim>\<open>fontWeights\<close> is the list 400, 700, and
  \<open>extract_brand\<close> raises \<^verbatim>\<open>AttributeError\<close> at \<^verbatim>\<open>font_weights.values()\<close>, so no typography is
  produced.
\<close>

theorem extract_brand_list_weights:
  "extract_brand no_repr (Inr list_weights_payload) ''https://example.com'' False =
     Inl AttributeError"
  by (simp add: extract_brand_eq list_weights_payload_def vendor_defs sub_def lookup_def)

lemma typography_fields:
  assumes "extract_brand repr (Inr data) u inc = Inr bd"
  shows
    "headings (typography bd) =
       (case field (sub (sub (sub (sub data ''data'') ''branding'') ''typography'') ''fontFamilies'')
               ''heading'' of
          Some v \<Rightarrow> v
        | None \<Rightarrow>
            (case field (sub (sub (sub (sub data ''data'') ''branding'') ''typography'')
                    ''fontFamilies'') ''primary'' of
               Some v \<Rightarrow> v
             | None \<Rightarrow> JStr ''sans-serif'')) \<and>
     body (typography bd) =
       (case field (sub (sub (sub (sub data ''data'') ''branding'') ''typography'') ''fontFamilies'')
               ''primary'' of
          Some v \<Rightarrow> v
        | None \<Rightarrow> JStr ''sans-serif'') \<and>
     weights (typography bd) =
       (case field (sub (sub (sub data ''data'') ''branding'') ''typography'') ''fontWeights'' of
          Some (JObj (kv # kvs)) \<Rightarrow> JArr (map snd (kv # kvs))
        | _ \<Rightarrow> JArr [JInt 400, JInt 600, JInt 700]) \<and>
     base_size (typography bd) =
       (case field (sub (sub (sub (sub data ''data'') ''branding'') ''typography'') ''fontSizes'')
               ''body'' of
          Some v \<Rightarrow> v
        | None \<Rightarrow> JStr ''16px'')"
proof -
  define t where "t = sub (sub (sub data ''data'') ''branding'') ''typography''"
  define f where "f = sub t ''fontFamilies''"
  define z where "z = sub t ''fontSizes''"
  have bd: "bd = vendor_brand repr data u inc" and ok: "well_shaped data"
    using assms by (simp_all add: extract_brand_Inr)
  have w: "truthy (sub t ''fontWeights'') \<longrightarrow> is_obj (sub t ''fontWeights'')"
    using ok by (simp add: well_shaped_def typography_ok_def Let_def t_def split: if_splits)
  have h: "headings (typography bd) =
      (case field f ''heading'' of
         Some v \<Rightarrow> v
       | None \<Rightarrow> (case field f ''primary'' of Some v \<Rightarrow> v | None \<Rightarrow> JStr ''sans-serif''))"
    by (simp add: bd vendor_brand_def vendor_typography_def Let_def t_def f_def lookup_def
        split: option.splits)
  have b: "body (typography bd) =
      (case field f ''primary'' of Some v \<Rightarrow> v | None \<Rightarrow> JStr ''sans-serif'')"
    by (simp add: bd vendor_brand_def vendor_typography_def Let_def t_def f_def lookup_def
        split: option.splits)
  have s: "base_size (typography bd) =
      (case field z ''body'' of Some v \<Rightarrow> v | None \<Rightarrow> JStr ''16px'')"
    by (simp add: bd vendor_brand_def vendor_typography_def Let_def t_def z_def lookup_def
        split: option.splits)
  have "weights (typography bd) =
      (if truthy (sub t ''fontWeights'') then JArr (values_of (sub t ''fontWeights''))
       else default_weights)"
    by (simp add: bd vendor_brand_def vendor_typography_def Let_def t_def)
  also have "\<dots> =
      (case field t ''fontWeights'' of
         Some (JObj (kv # kvs)) \<Rightarrow> JArr (map snd (kv # kvs))
       | _ \<Rightarrow> JArr [JInt 400, JInt 600, JInt 700])"
  proof (cases "field t ''fontWeights''")
    case None
    then show ?thesis by (simp add: sub_def lookup_def default_weights_def)
  next
    case (Some v)
    then have v: "sub t ''fontWeights'' = v" by (simp add: sub_def lookup_def)
    show ?thesis
      using w by (cases v) (auto simp: Some v default_weights_def split: list.splits)
  qed
  finally have ws: "weights (typography bd) =
      (case field t ''fontWeights'' of
         Some (JObj (kv # kvs)) \<Rightarrow> JArr (map snd (kv # kvs))
       | _ \<Rightarrow> JArr [JInt 400, JInt 600, JInt 700])" .
  show ?thesis
    unfolding t_def [symmetric] f_def [symmetric] z_def [symmetric]
    by (simp only: h b s ws simp_thms)
qed

text \<open>
  C6, amended. A response that is not \<open>well_shaped\<close> raises \<^verbatim>\<open>AttributeError\<close>. On a
  \<open>well_shaped\<close> one \<open>extract_brand\<close> returns, and \<open>headings\<close> is \<^verbatim>\<open>fontFamilies.heading\<close> if that
  key is present, else \<^verbatim>\<open>fontFamilies.primary\<close>, else \<^verbatim>\<open>sans-serif\<close>; \<open>body\<close> is
  \<^verbatim>\<open>fontFamilies.primary\<close> or \<^verbatim>\<open>sans-serif\<close>; \<open>weights\<close> are the values of \<^verbatim>\<open>fontWeights\<close> in the order
  of the payload, or 400, 600, 700 when \<^verbatim>\<open>fontWeights\<close> is empty or absent; \<open>base_size\<close> is
  \<^verbatim>\<open>fontSizes.body\<close>, or \<^verbatim>\<open>16px\<close>.
\<close>

theorem typography_mapping:
  "(\<not> well_shaped data \<longrightarrow> extract_brand repr (Inr data) u inc = Inl AttributeError) \<and>
   (well_shaped data \<longrightarrow>
     (\<exists>bd. extract_brand repr (Inr data) u inc = Inr bd \<and>
       headings (typography bd) =
         (case field (sub (sub (sub (sub data ''data'') ''branding'') ''typography'')
                 ''fontFamilies'') ''heading'' of
            Some v \<Rightarrow> v
          | None \<Rightarrow>
              (case field (sub (sub (sub (sub data ''data'') ''branding'') ''typography'')
                      ''fontFamilies'') ''primary'' of
                 Some v \<Rightarrow> v
               | None \<Rightarrow> JStr ''sans-serif'')) \<and>
       body (typography bd) =
         (case field (sub (sub (sub (sub data ''data'') ''branding'') ''typography'')
                 ''fontFamilies'') ''primary'' of
            Some v \<Rightarrow> v
          | None \<Rightarrow> JStr ''sans-serif'') \<and>
       weights (typography bd) =
         (case field (sub (sub (sub data ''data'') ''branding'') ''typography'') ''fontWeights'' of
            Some (JObj (kv # kvs)) \<Rightarrow> JArr (map snd (kv # kvs))
          | _ \<Rightarrow> JArr [JInt 400, JInt 600, JInt 700]) \<and>
       base_size (typography bd) =
         (case field (sub (sub (sub (sub data ''data'') ''branding'') ''typography'')
                 ''fontSizes'') ''body'' of
            Some v \<Rightarrow> v
          | None \<Rightarrow> JStr ''16px'')))"
proof -
  have bad: "\<not> well_shaped data \<longrightarrow> extract_brand repr (Inr data) u inc = Inl AttributeError"
    by (simp add: extract_brand_eq)
  moreover
  {
    assume "well_shaped data"
    then have r: "extract_brand repr (Inr data) u inc = Inr (vendor_brand repr data u inc)"
      by (simp add: extract_brand_eq)
    note typography_fields [OF r] r
  }
  ultimately show ?thesis by blast
qed

theorem typography_mapping_witness:
  "well_shaped typography_payload \<and> \<not> well_shaped list_weights_payload \<and>
   (\<exists>bd. extract_brand no_repr (Inr typography_payload) ''https://example.com'' False = Inr bd \<and>
      headings (typography bd) = JStr ''Inter'' \<and>
      body (typography bd) = JStr ''Inter'' \<and>
      weights (typography bd) = JArr [JInt 700, JInt 400] \<and>
      base_size (typography bd) = JStr ''16px'') \<and>
   extract_brand no_repr (Inr list_weights_payload) ''https://example.com'' False =
     Inl AttributeError"
proof -
  have 1: "well_shaped typography_payload"
    by (simp add: typography_payload_def vendor_defs sub_def lookup_def)
  have 2: "\<not> well_shaped list_weights_payload"
    by (simp add: list_weights_payload_def vendor_defs sub_def lookup_def)
  have t: "sub (sub (sub typography_payload ''data'') ''branding'') ''typography'' =
      JObj [(''fontFamilies'', JObj [(''primary'', JStr ''Inter'')]),
            (''fontWeights'', JObj [(''bold'', JInt 700), (''regular'', JInt 400)])]"
    by (simp add: typography_payload_def sub_def lookup_def)
  show ?thesis
    using 1 2
      typography_mapping [of typography_payload no_repr "''https://example.com''" False]
      typography_mapping [of list_weights_payload no_repr "''https://example.com''" False]
    by (simp add: t sub_simps)
qed

section \<open>The visual extractor: lemmas\<close>

lemma and_then_eq_Inr: "and_then r f = Inr y \<longleftrightarrow> (\<exists>v. r = Inr v \<and> f v = Inr y)"
  by (cases r) simp_all

lemma parse_colors_eq:
  "parse_colors data =
     (if is_obj data \<and> is_obj (sub data ''colors'') then Inr (reply_colors data)
      else Inl AttributeError)"
  by (simp add: parse_colors_def py_get_eq reply_colors_def sub_def Let_def)

lemma brand_of_reply_colors:
  assumes "brand_of_reply data src shot = Inr bd"
  shows "colors bd = reply_colors data"
proof -
  obtain cs ty bs where cs: "parse_colors data = Inr cs"
    and bd: "bd = \<lparr>url = src, colors = cs, typography = ty, spacing = default_spacing,
      buttons = bs, logo_url = JNull, favicon_url = JNull, screenshots = [JStr shot]\<rparr>"
    using assms by (auto simp: brand_of_reply_def and_then_eq_Inr)
  from cs have "cs = reply_colors data"
    by (simp add: parse_colors_eq split: if_splits)
  with bd show ?thesis by simp
qed

lemma parse_response_decoded:
  assumes "loads (strip (strip_fence (strip reply))) = Inr data"
  shows "parse_response loads reply src shot = brand_of_reply data src shot"
  using assms by (simp add: parse_response_def)

lemma default_brand_data_fields:
  "default_brand_data src shot =
     \<lparr>url = src,
      colors = \<lparr>primary = JStr ''#000000'', secondary = JNull, accent = JNull,
                background = JNull, text_color = JNull, palette = []\<rparr>,
      typography = \<lparr>headings = JStr ''sans-serif'', body = JStr ''sans-serif'',
                    weights = JArr [JInt 400, JInt 600, JInt 700], base_size = JNull\<rparr>,
      spacing = \<lparr>grid = JStr ''8px'', gap = JNull\<rparr>,
      buttons = \<lparr>btn_primary = None, btn_secondary = None\<rparr>,
      logo_url = JNull, favicon_url = JNull,
      screenshots = [JStr shot]\<rparr>"
  by (simp add: default_brand_data_def default_weights_def default_spacing_def default_buttons_def)

subsection \<open>Lines, trimming and the fence\<close>

lemma scenario_reply_strip: "strip scenario_reply = scenario_reply"
  by (simp add: scenario_reply_def strip_def isspace_def)

lemma split_lines_nonempty: "split_lines s \<noteq> []"
  by (induction s) (auto split: list.splits)

lemma join_lines_Cons: "ls \<noteq> [] \<Longrightarrow> join_lines (l # ls) = l @ newline # join_lines ls"
  by (cases ls) simp_all

lemma join_split_lines: "join_lines (split_lines s) = s"
proof (induction s)
  case Nil
  show ?case by simp
next
  case (Cons c cs)
  show ?case
  proof (cases "c = newline")
    case True
    with Cons show ?thesis
      by (simp add: join_lines_Cons split_lines_nonempty)
  next
    case False
    obtain l ls where ls: "split_lines cs = l # ls"
      using split_lines_nonempty [of cs] by (cases "split_lines cs") auto
    with Cons False show ?thesis
      by (cases ls) auto
  qed
qed

lemma split_lines_no_newline: "newline \<notin> set s \<Longrightarrow> split_lines s = [s]"
  by (induction s) auto

lemma split_lines_append: "split_lines (a @ newline # b) = split_lines a @ split_lines b"
proof (induction a)
  case Nil
  show ?case using split_lines_nonempty [of b] by (cases "split_lines b") auto
next
  case (Cons c cs)
  obtain l ls where ls: "split_lines cs = l # ls"
    using split_lines_nonempty [of cs] by (cases "split_lines cs") auto
  with Cons show ?case by auto
qed

lemma strip_core:
  assumes pre: "list_all isspace pre" and post: "list_all isspace post"
    and s: "s \<noteq> []" "\<not> isspace (hd s)" "\<not> isspace (last s)"
  shows "strip (pre @ s @ post) = s"
proof -
  have 1: "dropWhile isspace (pre @ s @ post) = s @ post"
    using pre s by (cases s) (simp_all add: list_all_iff)
  have "dropWhile isspace (rev post @ rev s) = dropWhile isspace (rev s)"
    by (rule dropWhile_append2) (use post in \<open>auto simp: list_all_iff\<close>)
  also have "\<dots> = rev s"
    using s by (simp add: dropWhile_eq_self_iff hd_rev)
  finally show ?thesis
    by (simp add: strip_def 1)
qed

lemma strip_idem: "strip (strip s) = strip s"
proof -
  define a where "a = dropWhile isspace s"
  define b where "b = rev (dropWhile isspace (rev a))"
  have a: "a = b @ rev (takeWhile isspace (rev a))"
  proof -
    have "rev (dropWhile isspace (rev a)) @ rev (takeWhile isspace (rev a)) =
            rev (takeWhile isspace (rev a) @ dropWhile isspace (rev a))"
      by (simp only: rev_append)
    also have "\<dots> = a" by simp
    finally show ?thesis by (simp only: b_def)
  qed
  have front: "dropWhile isspace b = b"
  proof (cases "b = []")
    case True
    then show ?thesis by simp
  next
    case False
    then have "hd b = hd a" using a by (metis hd_append2)
    moreover have "a \<noteq> []" using False a by auto
    then have "\<not> isspace (hd a)" unfolding a_def by (rule hd_dropWhile)
    ultimately show ?thesis by (simp add: dropWhile_eq_self_iff)
  qed
  have rear: "dropWhile isspace (rev b) = rev b"
    by (simp add: b_def)
  have "strip s = b" by (simp add: strip_def a_def b_def)
  moreover have "strip b = b" by (simp add: strip_def front rear)
  ultimately show ?thesis by simp
qed

lemma strip_fence_wrapped:
  assumes h: "prefix fence h" "newline \<notin> set h"
    and indent: "list_all isspace indent" "newline \<notin> set indent"
  shows "strip_fence (h @ newline # t @ newline # indent @ fence) = t"
proof -
  have last_line: "newline \<notin> set (indent @ fence)"
    using indent by (simp add: fence_def newline_def)
  have "split_lines (h @ newline # t @ newline # indent @ fence) =
          [h] @ split_lines t @ [indent @ fence]"
    using h last_line by (simp add: split_lines_append split_lines_no_newline)
  moreover have "strip (indent @ fence) = fence"
    using strip_core [of indent "[]" fence] indent by (simp add: fence_def isspace_def)
  moreover have "prefix fence (h @ newline # t @ newline # indent @ fence)"
    using h(1) by (rule prefix_prefix)
  ultimately show ?thesis
    by (simp add: strip_fence_def Let_def join_split_lines)
qed

lemma strip_wrapped:
  assumes pre: "list_all isspace pre" and post: "list_all isspace post"
    and h: "prefix fence h"
  shows "strip (pre @ (h @ newline # t @ newline # indent @ fence) @ post) =
           h @ newline # t @ newline # indent @ fence"
proof (rule strip_core [OF pre post])
  obtain r where "h = fence @ r" using h by (auto simp: prefix_def)
  then show "\<not> isspace (hd (h @ newline # t @ newline # indent @ fence))"
    by (simp add: fence_def isspace_def)
  show "\<not> isspace (last (h @ newline # t @ newline # indent @ fence))"
    by (simp add: fence_def isspace_def)
  show "h @ newline # t @ newline # indent @ fence \<noteq> []" by simp
qed

text \<open>
  C4. Let \<open>t\<close> be a text whose trimmed form does not begin with a fence, as is the case for
  every JSON text (a JSON value begins with a brace, a bracket, a quote, a digit, a minus
  sign or a letter). Wrapped in a code block, with a first line \<open>h\<close> that starts with three
  backticks and a last line that is a bare closing fence, possibly indented, the whole
  possibly surrounded by whitespace, it is parsed to the same result as \<open>t\<close> itself, for
  every decoder \<open>loads\<close>.
\<close>

theorem parse_response_fenced:
  assumes pre: "list_all isspace pre" and post: "list_all isspace post"
    and h: "prefix fence h" "newline \<notin> set h"
    and indent: "list_all isspace indent" "newline \<notin> set indent"
    and t: "\<not> prefix fence (strip t)"
  shows "parse_response loads (pre @ (h @ newline # t @ newline # indent @ fence) @ post) src shot =
         parse_response loads t src shot"
proof -
  have wrapped:
    "strip_fence (strip (pre @ (h @ newline # t @ newline # indent @ fence) @ post)) = t"
    by (simp only: strip_wrapped [OF pre post h(1)] strip_fence_wrapped [OF h indent])
  have direct: "strip_fence (strip t) = strip t"
    using t by (simp add: strip_fence_def)
  show ?thesis
    by (simp only: parse_response_def Let_def wrapped direct strip_idem)
qed

lemma scenario_reply_no_fence: "\<not> prefix fence (strip scenario_reply)"
  by (simp add: scenario_reply_strip) (simp add: scenario_reply_def fence_def)

lemma scenario_reply_direct:
  "parse_response (loads_table [(scenario_reply, scenario_reply_value)]) scenario_reply
     ''https://gumroad.com'' ''https://screenshot.url/img.png'' =
   Inr \<lparr>url = ''https://gumroad.com'',
     colors = \<lparr>primary = JStr ''#FF90E8'', secondary = JNull, accent = JNull,
       background = JStr ''#FFFFFF'', text_color = JStr ''#000000'',
       palette = [JStr ''#FF90E8'', JStr ''#FFFFFF'', JStr ''#000000'']\<rparr>,
     typography = \<lparr>headings = JStr ''Mabry'', body = JStr ''Mabry'',
       weights = JArr [JInt 400, JInt 600, JInt 700], base_size = JNull\<rparr>,
     spacing = \<lparr>grid = JStr ''8px'', gap = JNull\<rparr>,
     buttons = \<lparr>btn_primary = None, btn_secondary = None\<rparr>,
     logo_url = JNull, favicon_url = JNull,
     screenshots = [JStr ''https://screenshot.url/img.png'']\<rparr>"
proof -
  have "strip_fence (strip scenario_reply) = scenario_reply"
    using scenario_reply_no_fence by (simp add: strip_fence_def scenario_reply_strip)
  then have "parse_response (loads_table [(scenario_reply, scenario_reply_value)]) scenario_reply
      ''https://gumroad.com'' ''https://screenshot.url/img.png'' =
    brand_of_reply scenario_reply_value ''https://gumroad.com'' ''https://screenshot.url/img.png''"
    by (simp add: parse_response_def scenario_reply_strip loads_table_def)
  also have "\<dots> = Inr \<lparr>url = ''https://gumroad.com'',
     colors = \<lparr>primary = JStr ''#FF90E8'', secondary = JNull, accent = JNull,
       background = JStr ''#FFFFFF'', text_color = JStr ''#000000'',
       palette = [JStr ''#FF90E8'', JStr ''#FFFFFF'', JStr ''#000000'']\<rparr>,
     typography = \<lparr>headings = JStr ''Mabry'', body = JStr ''Mabry'',
       weights = JArr [JInt 400, JInt 600, JInt 700], base_size = JNull\<rparr>,
     spacing = \<lparr>grid = JStr ''8px'', gap = JNull\<rparr>,
     buttons = \<lparr>btn_primary = None, btn_secondary = None\<rparr>,
     logo_url = JNull, favicon_url = JNull,
     screenshots = [JStr ''https://screenshot.url/img.png'']\<rparr>"
    by (simp add: brand_of_reply_def scenario_reply_value_def parse_colors_def
        parse_typography_def parse_buttons_def parse_button_primary_def
        parse_button_secondary_def default_weights_def default_spacing_def)
  finally show ?thesis .
qed

theorem parse_response_fenced_witness:
  "prefix fence (fence @ ''json'') \<and> \<not> prefix fence (strip scenario_reply) \<and>
   parse_response (loads_table [(scenario_reply, scenario_reply_value)])
     ((fence @ ''json'') @ newline # scenario_reply @ newline # fence)
     ''https://gumroad.com'' ''https://screenshot.url/img.png'' =
   Inr \<lparr>url = ''https://gumroad.com'',
     colors = \<lparr>primary = JStr ''#FF90E8'', secondary = JNull, accent = JNull,
       background = JStr ''#FFFFFF'', text_color = JStr ''#000000'',
       palette = [JStr ''#FF90E8'', JStr ''#FFFFFF'', JStr ''#000000'']\<rparr>,
     typography = \<lparr>headings = JStr ''Mabry'', body = JStr ''Mabry'',
       weights = JArr [JInt 400, JInt 600, JInt 700], base_size = JNull\<rparr>,
     spacing = \<lparr>grid = JStr ''8px'', gap = JNull\<rparr>,
     buttons = \<lparr>btn_primary = None, btn_secondary = None\<rparr>,
     logo_url = JNull, favicon_url = JNull,
     screenshots = [JStr ''https://screenshot.url/img.png'']\<rparr>"
proof -
  have h: "prefix fence (fence @ ''json'')" "newline \<notin> set (fence @ ''json'')"
    by (simp_all add: fence_def newline_def)
  have e: "list_all isspace []" "newline \<notin> set []"
    by simp_all
  show ?thesis
    using h(1) scenario_reply_no_fence
      parse_response_fenced [of "[]" "[]" "fence @ ''json''" "[]" scenario_reply
        "loads_table [(scenario_reply, scenario_reply_value)]"
        "''https://gumroad.com''" "''https://screenshot.url/img.png''",
        OF e(1) e(1) h e scenario_reply_no_fence]
    by (simp add: scenario_reply_direct)
qed

subsection \<open>Replies that are not decoded\<close>

lemma deep_reply_strip: "strip deep_reply = deep_reply"
proof -
  have "strip ([] @ deep_reply @ []) = deep_reply"
    by (rule strip_core) (simp_all add: deep_reply_def isspace_def)
  then show ?thesis by simp
qed

lemma deep_reply_no_fence: "\<not> prefix fence deep_reply"
proof
  assume "prefix fence deep_reply"
  then obtain r where r: "deep_reply = fence @ r"
    by (auto simp: prefix_def)
  have "hd deep_reply = CHR 0x60"
    unfolding r by (simp add: fence_def)
  then show False
    by (simp add: deep_reply_def)
qed

text \<open>
  C2, as stated, fails: a reply of a thousand opening brackets is not parseable as JSON,
  \<^verbatim>\<open>json.loads\<close> raises \<^verbatim>\<open>RecursionError\<close> on it, and \<open>analyze_brand\<close> raises that error instead
  of returning the default: only \<^verbatim>\<open>JSONDecodeError\<close> is caught.
\<close>

theorem analyze_brand_recursion_error:
  "loads_deep (strip (strip_fence (strip deep_reply))) = Inl RecursionError \<and>
   analyze_brand loads_deep (Inr deep_reply)
       ''https://screenshot.url/img.png'' ''https://example.com'' = Inl RecursionError"
  using deep_reply_no_fence
  by (simp add: analyze_brand_def parse_response_def deep_reply_strip strip_fence_def
      loads_deep_def)

text \<open>
  C2, amended. When \<^verbatim>\<open>json.loads\<close> raises \<^verbatim>\<open>JSONDecodeError\<close> on the reply, trimmed and with
  its fence removed, \<open>analyze_brand\<close> returns exactly the default \<open>BrandData\<close>: primary colour
  \<^verbatim>\<open>#000000\<close>, both fonts \<^verbatim>\<open>sans-serif\<close>, the screenshot URL as the only screenshot, the source
  URL, no buttons, the default spacing; nothing of the reply is kept. Any other exception of
  the decoder propagates.
\<close>

theorem analyze_brand_unparseable:
  "(loads (strip (strip_fence (strip reply))) = Inl JSONDecodeError \<longrightarrow>
      analyze_brand loads (Inr reply) screenshot_url source_url =
        Inr \<lparr>url = source_url,
          colors = \<lparr>primary = JStr ''#000000'', secondary = JNull, accent = JNull,
                    background = JNull, text_color = JNull, palette = []\<rparr>,
          typography = \<lparr>headings = JStr ''sans-serif'', body = JStr ''sans-serif'',
                        weights = JArr [JInt 400, JInt 600, JInt 700], base_size = JNull\<rparr>,
          spacing = \<lparr>grid = JStr ''8px'', gap = JNull\<rparr>,
          buttons = \<lparr>btn_primary = None, btn_secondary = None\<rparr>,
          logo_url = JNull, favicon_url = JNull,
          screenshots = [JStr screenshot_url]\<rparr>) \<and>
   (loads (strip (strip_fence (strip reply))) = Inl e \<and> e \<noteq> JSONDecodeError \<longrightarrow>
      analyze_brand loads (Inr reply) screenshot_url source_url = Inl e)"
  by (simp add: analyze_brand_def parse_response_def default_brand_data_fields)

theorem analyze_brand_unparseable_witness:
  "loads_table [] (strip (strip_fence (strip ''not valid json at all''))) = Inl JSONDecodeError \<and>
   analyze_brand (loads_table []) (Inr ''not valid json at all'')
       ''https://screenshot.url/img.png'' ''https://example.com'' =
     Inr \<lparr>url = ''https://example.com'',
       colors = \<lparr>primary = JStr ''#000000'', secondary = JNull, accent = JNull,
                 background = JNull, text_color = JNull, palette = []\<rparr>,
       typography = \<lparr>headings = JStr ''sans-serif'', body = JStr ''sans-serif'',
                     weights = JArr [JInt 400, JInt 600, JInt 700], base_size = JNull\<rparr>,
       spacing = \<lparr>grid = JStr ''8px'', gap = JNull\<rparr>,
       buttons = \<lparr>btn_primary = None, btn_secondary = None\<rparr>,
       logo_url = JNull, favicon_url = JNull,
       screenshots = [JStr ''https://screenshot.url/img.png'']\<rparr> \<and>
   loads_deep (strip (strip_fence (strip deep_reply))) = Inl RecursionError \<and>
   analyze_brand loads_deep (Inr deep_reply)
       ''https://screenshot.url/img.png'' ''https://example.com'' = Inl RecursionError"
proof -
  have h: "loads_table [] (strip (strip_fence (strip ''not valid json at all''))) =
      Inl JSONDecodeError"
    by (simp add: loads_table_def)
  have d: "loads_deep (strip (strip_fence (strip deep_reply))) = Inl RecursionError"
    using deep_reply_no_fence by (simp add: deep_reply_strip strip_fence_def loads_deep_def)
  show ?thesis
    using h d
      analyze_brand_unparseable [of "loads_table []" "''not valid json at all''"
        "''https://screenshot.url/img.png''" "''https://example.com''" RecursionError]
      analyze_brand_unparseable [of loads_deep deep_reply
        "''https://screenshot.url/img.png''" "''https://example.com''" RecursionError]
    by simp
qed

subsection \<open>Colours and palette\<close>

lemma parse_response_colors:
  assumes "loads (strip (strip_fence (strip reply))) = Inr data"
    and "parse_response loads reply src shot = Inr bd"
  shows "colors bd = reply_colors data"
  using assms by (simp add: parse_response_decoded brand_of_reply_colors)

text \<open>
  C7, as stated, fails: in this reply the primary colour is the empty string, which is not
  \<^verbatim>\<open>None\<close>. Filtering the \<^verbatim>\<open>None\<close> entries out of the five colours leaves the empty string,
  but the palette of the result is empty: the comprehension keeps the entries that are
  truthy.
\<close>

theorem palette_empty_string:
  "parse_response (loads_table [(empty_primary_reply, empty_primary_value)]) empty_primary_reply
     ''https://example.com'' ''https://screenshot.url/img.png'' =
   Inr \<lparr>url = ''https://example.com'',
     colors = \<lparr>primary = JStr [], secondary = JNull, accent = JNull,
       background = JStr ''#ffffff'', text_color = JStr ''#000000'', palette = []\<rparr>,
     typography = \<lparr>headings = JStr ''sans-serif'', body = JStr ''sans-serif'',
       weights = JArr [JInt 400, JInt 600, JInt 700], base_size = JNull\<rparr>,
     spacing = \<lparr>grid = JStr ''8px'', gap = JNull\<rparr>,
     buttons = \<lparr>btn_primary = None, btn_secondary = None\<rparr>,
     logo_url = JNull, favicon_url = JNull,
     screenshots = [JStr ''https://screenshot.url/img.png'']\<rparr> \<and>
   removeAll JNull
     [lookup (sub empty_primary_value ''colors'') ''primary'' JNull,
      lookup (sub empty_primary_value ''colors'') ''secondary'' JNull,
      lookup (sub empty_primary_value ''colors'') ''accent'' JNull,
      lookup (sub empty_primary_value ''colors'') ''background'' JNull,
      lookup (sub empty_primary_value ''colors'') ''text'' JNull] = [JStr []]"
proof -
  have s: "strip empty_primary_reply = empty_primary_reply"
    by (simp add: empty_primary_reply_def strip_def isspace_def)
  have f: "strip_fence empty_primary_reply = empty_primary_reply"
    by (simp add: strip_fence_def) (simp add: empty_primary_reply_def fence_def)
  have "parse_response (loads_table [(empty_primary_reply, empty_primary_value)])
      empty_primary_reply ''https://example.com'' ''https://screenshot.url/img.png'' =
    brand_of_reply empty_primary_value ''https://example.com'' ''https://screenshot.url/img.png''"
    by (simp add: parse_response_def s f loads_table_def)
  then show ?thesis
    by (simp add: brand_of_reply_def empty_primary_value_def parse_colors_def
        parse_typography_def parse_buttons_def parse_button_primary_def
        parse_button_secondary_def default_weights_def default_spacing_def sub_def lookup_def)
qed

text \<open>
  C7, amended. For every reply that \<^verbatim>\<open>json.loads\<close> decodes and \<open>parse_response\<close> maps, the
  colours are \<^verbatim>\<open>colors.primary\<close> (default \<^verbatim>\<open>#000000\<close>), \<^verbatim>\<open>secondary\<close>, \<^verbatim>\<open>accent\<close>, \<^verbatim>\<open>background\<close> (default
  \<^verbatim>\<open>#ffffff\<close>) and \<^verbatim>\<open>text\<close> (default \<^verbatim>\<open>#000000\<close>), and the palette is the sequence primary,
  secondary, accent, background, text of the payload, in that order, without the falsy
  entries (\<^verbatim>\<open>None\<close>, the empty string, and the other values Python counts as false).
\<close>

theorem color_mapping:
  assumes "loads (strip (strip_fence (strip reply))) = Inr data"
    and "parse_response loads reply src shot = Inr bd"
  shows
    "primary (colors bd) = lookup (sub data ''colors'') ''primary'' (JStr ''#000000'') \<and>
     secondary (colors bd) = lookup (sub data ''colors'') ''secondary'' JNull \<and>
     accent (colors bd) = lookup (sub data ''colors'') ''accent'' JNull \<and>
     background (colors bd) = lookup (sub data ''colors'') ''background'' (JStr ''#ffffff'') \<and>
     text_color (colors bd) = lookup (sub data ''colors'') ''text'' (JStr ''#000000'') \<and>
     palette (colors bd) =
       filter truthy
         [lookup (sub data ''colors'') ''primary'' JNull,
          lookup (sub data ''colors'') ''secondary'' JNull,
          lookup (sub data ''colors'') ''accent'' JNull,
          lookup (sub data ''colors'') ''background'' JNull,
          lookup (sub data ''colors'') ''text'' JNull]"
  by (simp only: parse_response_colors [OF assms] reply_colors_def Let_def
      BrandColors.simps simp_thms)

lemma scenario_reply_decoded:
  "loads_table [(scenario_reply, scenario_reply_value)]
     (strip (strip_fence (strip scenario_reply))) = Inr scenario_reply_value"
proof -
  have "strip_fence (strip scenario_reply) = scenario_reply"
    using scenario_reply_no_fence by (simp add: strip_fence_def scenario_reply_strip)
  then show ?thesis
    by (simp add: scenario_reply_strip loads_table_def)
qed

theorem color_mapping_witness:
  "loads_table [(scenario_reply, scenario_reply_value)]
     (strip (strip_fence (strip scenario_reply))) = Inr scenario_reply_value \<and>
   (\<exists>bd. parse_response (loads_table [(scenario_reply, scenario_reply_value)]) scenario_reply
       ''https://gumroad.com'' ''https://screenshot.url/img.png'' = Inr bd \<and>
     primary (colors bd) = JStr ''#FF90E8'' \<and>
     secondary (colors bd) = JNull \<and>
     accent (colors bd) = JNull \<and>
     background (colors bd) = JStr ''#FFFFFF'' \<and>
     text_color (colors bd) = JStr ''#000000'' \<and>
     palette (colors bd) = [JStr ''#FF90E8'', JStr ''#FFFFFF'', JStr ''#000000''])"
proof -
  have c: "sub scenario_reply_value ''colors'' =
      JObj [(''primary'', JStr ''#FF90E8''), (''background'', JStr ''#FFFFFF''),
            (''text'', JStr ''#000000'')]"
    by (simp add: scenario_reply_value_def sub_def lookup_def)
  show ?thesis
    using color_mapping [OF scenario_reply_decoded scenario_reply_direct]
    by (simp add: scenario_reply_decoded scenario_reply_direct c lookup_def)
qed

subsection \<open>Replies on which the parser returns\<close>

lemma parse_typography_returns:
  "is_obj data \<Longrightarrow> is_obj (sub data ''typography'') \<Longrightarrow> \<exists>ty. parse_typography data = Inr ty"
  by (simp add: parse_typography_def py_get_eq sub_def)

lemma parse_border_returns: "is_obj btn \<Longrightarrow> \<exists>b. parse_border btn = Inr b"
  by (simp add: parse_border_def py_get_eq)

lemma parse_button_primary_returns:
  assumes "is_obj bs" and "button_ok bs ''primary''"
  shows "\<exists>p. parse_button_primary bs cp = Inr p"
proof (cases "truthy (lookup bs ''primary'' JNull)")
  case False
  with assms show ?thesis
    by (simp add: parse_button_primary_def py_get_eq)
next
  case True
  then have obj: "is_obj (lookup bs ''primary'' JNull)"
    using assms by (simp add: button_ok_def)
  from True have "field bs ''primary'' = Some (lookup bs ''primary'' JNull)"
    by (rule truthy_lookup_field)
  moreover obtain b where "parse_border (lookup bs ''primary'' JNull) = Inr b"
    using parse_border_returns [OF obj] by blast
  ultimately show ?thesis
    using assms True obj by (simp add: parse_button_primary_def py_get_eq py_getitem_eq)
qed

lemma parse_button_secondary_returns:
  assumes "is_obj bs" and "button_ok bs ''secondary''"
  shows "\<exists>p. parse_button_secondary bs cp = Inr p"
proof (cases "truthy (lookup bs ''secondary'' JNull)")
  case False
  with assms show ?thesis
    by (simp add: parse_button_secondary_def py_get_eq)
next
  case True
  then have obj: "is_obj (lookup bs ''secondary'' JNull)"
    using assms by (simp add: button_ok_def)
  from True have "field bs ''secondary'' = Some (lookup bs ''secondary'' JNull)"
    by (rule truthy_lookup_field)
  moreover obtain b where "parse_border (lookup bs ''secondary'' JNull) = Inr b"
    using parse_border_returns [OF obj] by blast
  ultimately show ?thesis
    using assms True obj by (simp add: parse_button_secondary_def py_get_eq py_getitem_eq)
qed

lemma parse_buttons_returns:
  assumes "is_obj data" and "is_obj (sub data ''buttons'')"
    and "button_ok (sub data ''buttons'') ''primary''"
    and "button_ok (sub data ''buttons'') ''secondary''"
  shows "\<exists>bs. parse_buttons data cp = Inr bs"
proof -
  obtain p where "parse_button_primary (sub data ''buttons'') cp = Inr p"
    using parse_button_primary_returns assms by blast
  moreover obtain s where "parse_button_secondary (sub data ''buttons'') cp = Inr s"
    using parse_button_secondary_returns assms by blast
  ultimately show ?thesis
    using assms by (simp add: parse_buttons_def py_get_eq sub_def)
qed

lemma brand_of_reply_returns:
  assumes "reply_shaped data"
  shows "\<exists>bd. brand_of_reply data src shot = Inr bd"
proof -
  have c: "parse_colors data = Inr (reply_colors data)"
    using assms by (simp add: reply_shaped_def parse_colors_eq)
  obtain ty where ty: "parse_typography data = Inr ty"
    using assms parse_typography_returns by (auto simp: reply_shaped_def)
  obtain bs where bs: "parse_buttons data (primary (reply_colors data)) = Inr bs"
    using assms parse_buttons_returns by (auto simp: reply_shaped_def)
  show ?thesis
    by (simp add: brand_of_reply_def c ty bs)
qed

lemma truthy_lookup_keys:
  assumes "v \<in> set (filter truthy (map (\<lambda>k. lookup c k JNull) ks))"
  shows "truthy v \<and> (\<exists>k\<in>set ks. field c k = Some v)"
proof -
  from assms obtain k where k: "k \<in> set ks" "v = lookup c k JNull" "truthy v"
    by auto
  then have "field c k = Some v"
    by (simp add: truthy_lookup_field)
  with k show ?thesis by blast
qed

lemma lookup_keys_truthy:
  assumes "k \<in> set ks" and "field c k = Some v" and "truthy v"
  shows "v \<in> set (filter truthy (map (\<lambda>k. lookup c k JNull) ks))"
proof -
  from assms(2) have "lookup c k JNull = v" by (simp add: lookup_def)
  with assms(1,3) show ?thesis by force
qed

text \<open>
  C10, as stated, fails twice. In the first reply \<^verbatim>\<open>colors.primary\<close> is absent and the text
  colour is \<^verbatim>\<open>#000000\<close>: the primary colour of the result is \<^verbatim>\<open>#000000\<close> and \<^verbatim>\<open>#000000\<close> does
  appear in the palette. The second reply is decoded, its \<^verbatim>\<open>colors\<close> is \<^verbatim>\<open>null\<close>, and
  \<open>parse_response\<close> raises \<^verbatim>\<open>AttributeError\<close>, so no colours are returned.
\<close>

theorem palette_black_text:
  "parse_response (loads_table [(black_text_reply, black_text_value)]) black_text_reply
     ''https://example.com'' ''https://screenshot.url/img.png'' =
   Inr \<lparr>url = ''https://example.com'',
     colors = \<lparr>primary = JStr ''#000000'', secondary = JNull, accent = JNull,
       background = JStr ''#ffffff'', text_color = JStr ''#000000'',
       palette = [JStr ''#000000'']\<rparr>,
     typography = \<lparr>headings = JStr ''sans-serif'', body = JStr ''sans-serif'',
       weights = JArr [JInt 400, JInt 600, JInt 700], base_size = JNull\<rparr>,
     spacing = \<lparr>grid = JStr ''8px'', gap = JNull\<rparr>,
     buttons = \<lparr>btn_primary = None, btn_secondary = None\<rparr>,
     logo_url = JNull, favicon_url = JNull,
     screenshots = [JStr ''https://screenshot.url/img.png'']\<rparr> \<and>
   field (sub black_text_value ''colors'') ''primary'' = None \<and>
   parse_response (loads_table [(null_colors_reply, null_colors_value)]) null_colors_reply
     ''https://example.com'' ''https://screenshot.url/img.png'' = Inl AttributeError"
proof -
  have s: "strip black_text_reply = black_text_reply" "strip null_colors_reply = null_colors_reply"
    by (simp_all add: black_text_reply_def null_colors_reply_def strip_def isspace_def)
  have f: "strip_fence black_text_reply = black_text_reply"
    "strip_fence null_colors_reply = null_colors_reply"
    by (simp_all add: strip_fence_def)
      (simp_all add: black_text_reply_def null_colors_reply_def fence_def)
  have 1: "parse_response (loads_table [(black_text_reply, black_text_value)])
      black_text_reply ''https://example.com'' ''https://screenshot.url/img.png'' =
    brand_of_reply black_text_value ''https://example.com'' ''https://screenshot.url/img.png''"
    by (simp add: parse_response_def s f loads_table_def)
  have 2: "parse_response (loads_table [(null_colors_reply, null_colors_value)])
      null_colors_reply ''https://example.com'' ''https://screenshot.url/img.png'' =
    brand_of_reply null_colors_value ''https://example.com'' ''https://screenshot.url/img.png''"
    by (simp add: parse_response_def s f loads_table_def)
  show ?thesis
    unfolding 1 2
    by (simp add: brand_of_reply_def black_text_value_def null_colors_value_def parse_colors_def
        parse_typography_def parse_buttons_def parse_button_primary_def
        parse_button_secondary_def default_weights_def default_spacing_def sub_def lookup_def)
qed

text \<open>
  C10, amended. For every reply that \<^verbatim>\<open>json.loads\<close> decodes to a \<open>reply_shaped\<close> value (an
  object whose \<^verbatim>\<open>colors\<close>, \<^verbatim>\<open>typography\<close> and \<^verbatim>\<open>buttons\<close> are objects when present, and whose two
  buttons are objects unless falsy), \<open>parse_response\<close> returns, and each entry of the palette
  is truthy and is the value of one of the five colour keys in the payload. When
  \<^verbatim>\<open>colors.primary\<close> is absent, the primary colour of the result is \<^verbatim>\<open>#000000\<close> and the palette is
  built from the other four keys alone: \<^verbatim>\<open>#000000\<close> is in it exactly when one of those keys
  holds it, so the default is never added and the palette need not contain the primary
  colour.
\<close>

theorem palette_only_present_colors:
  assumes "loads (strip (strip_fence (strip reply))) = Inr data"
    and "reply_shaped data"
  shows
    "\<exists>bd. parse_response loads reply src shot = Inr bd \<and>
       (\<forall>v\<in>set (palette (colors bd)).
          truthy v \<and> (\<exists>k\<in>set color_keys. field (sub data ''colors'') k = Some v)) \<and>
       (field (sub data ''colors'') ''primary'' = None \<longrightarrow>
          primary (colors bd) = JStr ''#000000'' \<and>
          palette (colors bd) =
            filter truthy
              [lookup (sub data ''colors'') ''secondary'' JNull,
               lookup (sub data ''colors'') ''accent'' JNull,
               lookup (sub data ''colors'') ''background'' JNull,
               lookup (sub data ''colors'') ''text'' JNull] \<and>
          (JStr ''#000000'' \<in> set (palette (colors bd)) \<longleftrightarrow>
             (\<exists>k\<in>set [''secondary'', ''accent'', ''background'', ''text''].
                field (sub data ''colors'') k = Some (JStr ''#000000''))))"
proof -
  define c where "c = sub data ''colors''"
  obtain bd where r: "parse_response loads reply src shot = Inr bd"
    using brand_of_reply_returns [OF assms(2), of src shot]
      parse_response_decoded [of loads reply data src shot, OF assms(1)]
    by auto
  have cs: "colors bd = reply_colors data"
    using parse_response_colors [of loads reply data src shot bd, OF assms(1) r] .
  have pal: "palette (colors bd) = filter truthy (map (\<lambda>k. lookup c k JNull) color_keys)"
    by (simp only: cs reply_colors_def Let_def BrandColors.simps c_def color_keys_def list.map)
  have pri: "primary (colors bd) = lookup c ''primary'' (JStr ''#000000'')"
    by (simp only: cs reply_colors_def Let_def BrandColors.simps c_def)
  have 1: "\<forall>v\<in>set (palette (colors bd)). truthy v \<and> (\<exists>k\<in>set color_keys. field c k = Some v)"
    unfolding pal by (blast dest: truthy_lookup_keys)
  have 2: "field c ''primary'' = None \<longrightarrow>
        primary (colors bd) = JStr ''#000000'' \<and>
        palette (colors bd) =
          filter truthy
            [lookup c ''secondary'' JNull, lookup c ''accent'' JNull,
             lookup c ''background'' JNull, lookup c ''text'' JNull] \<and>
        (JStr ''#000000'' \<in> set (palette (colors bd)) \<longleftrightarrow>
           (\<exists>k\<in>set [''secondary'', ''accent'', ''background'', ''text''].
              field c k = Some (JStr ''#000000'')))"
  proof
    assume none: "field c ''primary'' = None"
    then have l: "lookup c ''primary'' JNull = JNull"
      "lookup c ''primary'' (JStr ''#000000'') = JStr ''#000000''"
      by (simp_all add: lookup_def)
    have rest: "palette (colors bd) =
        filter truthy (map (\<lambda>k. lookup c k JNull) [''secondary'', ''accent'', ''background'', ''text''])"
      by (simp only: pal color_keys_def list.map filter.simps truthy.simps if_False l)
    have mem: "JStr ''#000000'' \<in> set (palette (colors bd)) \<longleftrightarrow>
           (\<exists>k\<in>set [''secondary'', ''accent'', ''background'', ''text''].
              field c k = Some (JStr ''#000000''))"
    proof
      assume "JStr ''#000000'' \<in> set (palette (colors bd))"
      then show "\<exists>k\<in>set [''secondary'', ''accent'', ''background'', ''text''].
              field c k = Some (JStr ''#000000'')"
        unfolding rest by (blast dest: truthy_lookup_keys)
    next
      assume "\<exists>k\<in>set [''secondary'', ''accent'', ''background'', ''text''].
              field c k = Some (JStr ''#000000'')"
      then obtain k where "k \<in> set [''secondary'', ''accent'', ''background'', ''text'']"
        "field c k = Some (JStr ''#000000'')" by blast
      then show "JStr ''#000000'' \<in> set (palette (colors bd))"
        unfolding rest by (rule lookup_keys_truthy) simp
    qed
    from rest have "palette (colors bd) =
          filter truthy
            [lookup c ''secondary'' JNull, lookup c ''accent'' JNull,
             lookup c ''background'' JNull, lookup c ''text'' JNull]"
      by (simp only: list.map)
    with mem show "primary (colors bd) = JStr ''#000000'' \<and>
        palette (colors bd) =
          filter truthy
            [lookup c ''secondary'' JNull, lookup c ''accent'' JNull,
             lookup c ''background'' JNull, lookup c ''text'' JNull] \<and>
        (JStr ''#000000'' \<in> set (palette (colors bd)) \<longleftrightarrow>
           (\<exists>k\<in>set [''secondary'', ''accent'', ''background'', ''text''].
              field c k = Some (JStr ''#000000'')))"
      by (simp only: pri l simp_thms)
  qed
  have 3: "\<forall>v\<in>set (palette (colors bd)).
      truthy v \<and> (\<exists>k\<in>set color_keys. field (sub data ''colors'') k = Some v)"
    using 1 unfolding c_def .
  have 4: "field (sub data ''colors'') ''primary'' = None \<longrightarrow>
      primary (colors bd) = JStr ''#000000'' \<and>
      palette (colors bd) =
        filter truthy
          [lookup (sub data ''colors'') ''secondary'' JNull,
           lookup (sub data ''colors'') ''accent'' JNull,
           lookup (sub data ''colors'') ''background'' JNull,
           lookup (sub data ''colors'') ''text'' JNull] \<and>
      (JStr ''#000000'' \<in> set (palette (colors bd)) \<longleftrightarrow>
         (\<exists>k\<in>set [''secondary'', ''accent'', ''background'', ''text''].
            field (sub data ''colors'') k = Some (JStr ''#000000'')))"
    using 2 unfolding c_def .
  from 3 4 have 5: "(\<forall>v\<in>set (palette (colors bd)).
      truthy v \<and> (\<exists>k\<in>set color_keys. field (sub data ''colors'') k = Some v)) \<and>
    (field (sub data ''colors'') ''primary'' = None \<longrightarrow>
      primary (colors bd) = JStr ''#000000'' \<and>
      palette (colors bd) =
        filter truthy
          [lookup (sub data ''colors'') ''secondary'' JNull,
           lookup (sub data ''colors'') ''accent'' JNull,
           lookup (sub data ''colors'') ''background'' JNull,
           lookup (sub data ''colors'') ''text'' JNull] \<and>
      (JStr ''#000000'' \<in> set (palette (colors bd)) \<longleftrightarrow>
         (\<exists>k\<in>set [''secondary'', ''accent'', ''background'', ''text''].
            field (sub data ''colors'') k = Some (JStr ''#000000''))))"
    by (rule conjI)
  from r 5 show ?thesis
    by (intro exI [of _ bd]) (rule conjI)
qed

theorem palette_only_present_colors_witness:
  "loads_table [(black_text_reply, black_text_value)]
     (strip (strip_fence (strip black_text_reply))) = Inr black_text_value \<and>
   reply_shaped black_text_value \<and>
   field (sub black_text_value ''colors'') ''primary'' = None \<and>
   (\<exists>bd. parse_response (loads_table [(black_text_reply, black_text_value)]) black_text_reply
       ''https://example.com'' ''https://screenshot.url/img.png'' = Inr bd \<and>
     primary (colors bd) = JStr ''#000000'' \<and>
     palette (colors bd) = [JStr ''#000000'']) \<and>
   loads_table [(empty_object_reply, JObj [])]
     (strip (strip_fence (strip empty_object_reply))) = Inr (JObj []) \<and>
   reply_shaped (JObj []) \<and>
   (\<exists>bd. parse_response (loads_table [(empty_object_reply, JObj [])]) empty_object_reply
       ''https://example.com'' ''https://screenshot.url/img.png'' = Inr bd \<and>
     primary (colors bd) = JStr ''#000000'' \<and>
     palette (colors bd) = [])"
proof -
  have d1: "loads_table [(black_text_reply, black_text_value)]
      (strip (strip_fence (strip black_text_reply))) = Inr black_text_value"
  proof -
    have "strip black_text_reply = black_text_reply"
      by (simp add: black_text_reply_def strip_def isspace_def)
    moreover have "strip_fence black_text_reply = black_text_reply"
      by (simp add: strip_fence_def) (simp add: black_text_reply_def fence_def)
    ultimately show ?thesis by (simp add: loads_table_def)
  qed
  have s1: "reply_shaped black_text_value"
    by (simp add: reply_shaped_def black_text_value_def button_ok_def sub_def lookup_def)
  have c1: "sub black_text_value ''colors'' = JObj [(''text'', JStr ''#000000'')]"
    by (simp add: black_text_value_def sub_def lookup_def)
  have d2: "loads_table [(empty_object_reply, JObj [])]
      (strip (strip_fence (strip empty_object_reply))) = Inr (JObj [])"
    by (simp add: empty_object_reply_def strip_def isspace_def strip_fence_def fence_def
        loads_table_def)
  have s2: "reply_shaped (JObj [])"
    by (simp add: reply_shaped_def button_ok_def sub_def lookup_def)
  have c2: "sub (JObj []) ''colors'' = JObj []"
    by (simp add: sub_def lookup_def)
  have 1: "\<exists>bd. parse_response (loads_table [(black_text_reply, black_text_value)])
       black_text_reply ''https://example.com'' ''https://screenshot.url/img.png'' = Inr bd \<and>
     primary (colors bd) = JStr ''#000000'' \<and>
     palette (colors bd) = [JStr ''#000000'']"
    using palette_only_present_colors [of "loads_table [(black_text_reply, black_text_value)]"
        black_text_reply black_text_value "''https://example.com''"
        "''https://screenshot.url/img.png''", OF d1 s1]
    by (auto simp: c1 lookup_def)
  have 2: "\<exists>bd. parse_response (loads_table [(empty_object_reply, JObj [])])
       empty_object_reply ''https://example.com'' ''https://screenshot.url/img.png'' = Inr bd \<and>
     primary (colors bd) = JStr ''#000000'' \<and>
     palette (colors bd) = []"
    using palette_only_present_colors [of "loads_table [(empty_object_reply, JObj [])]"
        empty_object_reply "JObj []" "''https://example.com''"
        "''https://screenshot.url/img.png''", OF d2 s2]
    by (auto simp: c2 lookup_def)
  have f: "field (sub black_text_value ''colors'') ''primary'' = None"
    by (simp add: c1)
  from d1 s1 f 1 d2 s2 2 show ?thesis
    by (intro conjI)
qed

section \<open>The colour similarity scorer\<close>

lemma hex_digit_bound: "hex_digit c = Some n \<Longrightarrow> n < 16"
  by (auto simp: hex_digit_def Let_def split: if_splits)

lemma hex_byte_bound: "hex_byte hi lo = Some n \<Longrightarrow> n \<le> 255"
  by (auto simp: hex_byte_def split: option.splits dest!: hex_digit_bound)

lemma rgb_of_bound:
  "rgb_of (hex_byte a b) (hex_byte c d) (hex_byte e f) = Some (r, g, bl) \<Longrightarrow>
     r \<le> 255 \<and> g \<le> 255 \<and> bl \<le> 255"
  by (auto simp: rgb_of_def split: option.splits dest: hex_byte_bound)

lemma hex_to_rgb_bound:
  "hex_to_rgb s = Some (r, g, b) \<Longrightarrow> r \<le> 255 \<and> g \<le> 255 \<and> b \<le> 255"
  by (induction s rule: hex_to_rgb.induct)
    (auto simp: hex_to_rgb.simps split: if_splits dest: rgb_of_bound)

lemma color_distance_self: "color_distance c c = 0"
  by (cases c) simp

lemma color_distance_commute: "color_distance c1 c2 = color_distance c2 c1"
  by (cases c1; cases c2) (simp add: power2_commute)

lemma color_distance_nonneg: "0 \<le> color_distance c1 c2"
  by (cases c1; cases c2) simp

lemma channel_square:
  assumes "x \<le> 255" and "y \<le> (255::nat)"
  shows "(real x - real y)\<^sup>2 \<le> 255\<^sup>2"
proof -
  have "\<bar>real x - real y\<bar> \<le> 255" using assms by linarith
  then have "\<bar>real x - real y\<bar>\<^sup>2 \<le> 255\<^sup>2"
    by (rule power_mono) simp
  then show ?thesis by simp
qed

lemma color_distance_max:
  assumes "r1 \<le> 255" "g1 \<le> 255" "b1 \<le> 255" "r2 \<le> 255" "g2 \<le> 255" "b2 \<le> (255::nat)"
  shows "color_distance (r1, g1, b1) (r2, g2, b2) \<le> max_distance"
proof -
  have "(real r1 - real r2)\<^sup>2 + (real g1 - real g2)\<^sup>2 + (real b1 - real b2)\<^sup>2 \<le> 3 * 255\<^sup>2"
    using channel_square [of r1 r2] channel_square [of g1 g2] channel_square [of b1 b2] assms
    by linarith
  then show ?thesis
    by (simp only: color_distance.simps max_distance_def real_sqrt_le_iff)
qed

lemma max_distance_pos: "0 < max_distance"
  by (simp add: max_distance_def)

lemma similarity_range:
  assumes "calculate_color_similarity a b = Some s"
  shows "0 \<le> s \<and> s \<le> 1"
proof -
  obtain c1 c2 where c: "hex_to_rgb a = Some c1" "hex_to_rgb b = Some c2"
    and s: "s = 1 - color_distance c1 c2 / max_distance"
    using assms by (auto simp: calculate_color_similarity_def split: option.splits)
  obtain r1 g1 b1 r2 g2 b2 where p: "c1 = (r1, g1, b1)" "c2 = (r2, g2, b2)"
    by (cases c1; cases c2) auto
  have "color_distance c1 c2 \<le> max_distance"
    using c hex_to_rgb_bound [of a r1 g1 b1] hex_to_rgb_bound [of b r2 g2 b2]
    unfolding p by (intro color_distance_max) auto
  then have "color_distance c1 c2 / max_distance \<le> 1"
    using max_distance_pos by (simp add: divide_le_eq)
  moreover have "0 \<le> color_distance c1 c2 / max_distance"
    using color_distance_nonneg max_distance_pos by (simp add: divide_nonneg_pos)
  ultimately show ?thesis by (simp add: s)
qed

lemma hex_examples:
  "hex_to_rgb ''#000000'' = Some (0, 0, 0)"
  "hex_to_rgb ''#FFFFFF'' = Some (255, 255, 255)"
  "hex_to_rgb ''#FF0000'' = Some (255, 0, 0)"
  "hex_to_rgb ''#FF1111'' = Some (255, 17, 17)"
  by (simp_all add: hex_to_rgb.simps hex_byte_def hex_digit_def rgb_of_def)

lemma black_white: "calculate_color_similarity ''#000000'' ''#FFFFFF'' = Some 0"
proof -
  have "color_distance (0, 0, 0) (255, 255, 255) = max_distance"
    by (simp add: max_distance_def)
  then have "calculate_color_similarity ''#000000'' ''#FFFFFF'' =
      Some (1 - max_distance / max_distance)"
    by (simp only: calculate_color_similarity_def hex_examples option.case)
  then show ?thesis
    using max_distance_pos by simp
qed

lemma red_nudge:
  "\<exists>s. calculate_color_similarity ''#FF0000'' ''#FF1111'' = Some s \<and> 9 / 10 < s"
proof -
  have d: "color_distance (255, 0, 0) (255, 17, 17) = sqrt 578"
    by simp
  have m: "max_distance = sqrt 195075"
    by (simp add: max_distance_def)
  have ten: "sqrt 100 = 10"
    by (rule real_sqrt_unique) simp_all
  have "sqrt 578 * sqrt 100 = sqrt (578 * 100)"
    by (rule real_sqrt_mult [symmetric])
  also have "\<dots> < sqrt 195075"
    by (rule real_sqrt_less_mono) simp
  finally have lt: "sqrt 578 * 10 < sqrt 195075"
    by (simp only: ten)
  have pos: "0 < sqrt 195075"
    by simp
  have "sqrt 578 / sqrt 195075 < 1 / 10"
    using lt pos by (simp only: divide_less_eq) (simp add: field_simps)
  then have "9 / 10 < 1 - sqrt 578 / sqrt 195075"
    by linarith
  moreover have "calculate_color_similarity ''#FF0000'' ''#FF1111'' =
      Some (1 - sqrt 578 / sqrt 195075)"
    by (simp only: calculate_color_similarity_def hex_examples option.case d m)
  ultimately show ?thesis by blast
qed

text \<open>
  C9. The score of a hex colour with itself is 1; the score is symmetric; the score of two
  hex colours exists and lies between 0 and 1; black against white scores below 0.5, and
  \<^verbatim>\<open>#FF0000\<close> against \<^verbatim>\<open>#FF1111\<close> above 0.9.
\<close>

theorem color_similarity_properties:
  "(hex_to_rgb a \<noteq> None \<longrightarrow> calculate_color_similarity a a = Some 1) \<and>
   calculate_color_similarity a b = calculate_color_similarity b a \<and>
   (hex_to_rgb a \<noteq> None \<and> hex_to_rgb b \<noteq> None \<longrightarrow>
      (\<exists>s. calculate_color_similarity a b = Some s \<and> 0 \<le> s \<and> s \<le> 1)) \<and>
   (\<exists>s. calculate_color_similarity ''#000000'' ''#FFFFFF'' = Some s \<and> s < 1 / 2) \<and>
   (\<exists>s. calculate_color_similarity ''#FF0000'' ''#FF1111'' = Some s \<and> 9 / 10 < s)"
proof -
  have refl: "hex_to_rgb a \<noteq> None \<longrightarrow> calculate_color_similarity a a = Some 1"
    by (auto simp: calculate_color_similarity_def color_distance_self)
  have sym: "calculate_color_similarity a b = calculate_color_similarity b a"
    by (simp add: calculate_color_similarity_def color_distance_commute split: option.splits)
  have rng: "hex_to_rgb a \<noteq> None \<and> hex_to_rgb b \<noteq> None \<longrightarrow>
      (\<exists>s. calculate_color_similarity a b = Some s \<and> 0 \<le> s \<and> s \<le> 1)"
  proof
    assume "hex_to_rgb a \<noteq> None \<and> hex_to_rgb b \<noteq> None"
    then obtain s where "calculate_color_similarity a b = Some s"
      by (auto simp: calculate_color_similarity_def)
    then show "\<exists>s. calculate_color_similarity a b = Some s \<and> 0 \<le> s \<and> s \<le> 1"
      using similarity_range by blast
  qed
  have bw: "\<exists>s. calculate_color_similarity ''#000000'' ''#FFFFFF'' = Some s \<and> s < 1 / 2"
    by (simp add: black_white)
  show ?thesis
    using refl sym rng bw red_nudge by blast
qed

theorem color_similarity_properties_witness:
  "hex_to_rgb ''#FF0000'' \<noteq> None \<and> hex_to_rgb ''#FF1111'' \<noteq> None \<and>
   calculate_color_similarity ''#FF0000'' ''#FF0000'' = Some 1 \<and>
   calculate_color_similarity ''#FF0000'' ''#FF1111'' =
     calculate_color_similarity ''#FF1111'' ''#FF0000'' \<and>
   (\<exists>s. calculate_color_similarity ''#FF0000'' ''#FF1111'' = Some s \<and> 0 \<le> s \<and> s \<le> 1)"
proof -
  have v: "hex_to_rgb ''#FF0000'' \<noteq> None" "hex_to_rgb ''#FF1111'' \<noteq> None"
    by (simp_all add: hex_examples)
  from color_similarity_properties [of "''#FF0000''" "''#FF1111''"] v show ?thesis
    by blast
qed

section \<open>Construction of the services\<close>

text \<open>The exceptions the two calls can raise.\<close>

lemma extract_brand_error:
  assumes "extract_brand repr response u inc = Inl e"
  shows "response = Inl e \<or> e = AttributeError"
proof (cases response)
  case (Inl x)
  with assms show ?thesis by (simp add: extract_brand_def)
next
  case (Inr data)
  with assms show ?thesis by (simp add: extract_brand_eq split: if_splits)
qed

lemma parse_border_error: "parse_border btn = Inl e \<Longrightarrow> e = AttributeError"
  by (auto simp: parse_border_def py_get_eq split: if_splits)

lemma parse_button_primary_error:
  "parse_button_primary b cp = Inl e \<Longrightarrow> e = AttributeError"
  by (auto simp: parse_button_primary_def py_get_eq py_getitem_eq and_then_def
      dest: truthy_lookup_field parse_border_error split: if_splits sum.splits)

lemma parse_button_secondary_error:
  "parse_button_secondary b cp = Inl e \<Longrightarrow> e = AttributeError"
  by (auto simp: parse_button_secondary_def py_get_eq py_getitem_eq and_then_def
      dest: truthy_lookup_field parse_border_error split: if_splits sum.splits)

lemma parse_buttons_error: "parse_buttons data cp = Inl e \<Longrightarrow> e = AttributeError"
  by (auto simp: parse_buttons_def py_get_eq and_then_def
      dest: parse_button_primary_error parse_button_secondary_error
      split: if_splits sum.splits)

lemma parse_typography_error: "parse_typography data = Inl e \<Longrightarrow> e = AttributeError"
  by (auto simp: parse_typography_def py_get_eq split: if_splits)

lemma brand_of_reply_error: "brand_of_reply data src shot = Inl e \<Longrightarrow> e = AttributeError"
  by (auto simp: brand_of_reply_def parse_colors_eq and_then_def
      dest: parse_typography_error parse_buttons_error split: if_splits sum.splits)

lemma analyze_brand_error:
  assumes "analyze_brand loads completion shot src = Inl e"
  shows "completion = Inl e \<or> (\<exists>s. loads s = Inl e) \<or> e = AttributeError"
proof (cases completion)
  case (Inl x)
  with assms show ?thesis by (simp add: analyze_brand_def)
next
  case (Inr reply)
  show ?thesis
  proof (cases "loads (strip (strip_fence (strip reply)))")
    case (Inl x)
    with assms Inr have "x = e"
      by (simp add: analyze_brand_def parse_response_def split: if_splits)
    with Inl show ?thesis by blast
  next
    case (Inr data)
    with assms \<open>completion = Inr reply\<close> have "brand_of_reply data src shot = Inl e"
      by (simp add: analyze_brand_def parse_response_def)
    then show ?thesis by (simp add: brand_of_reply_error)
  qed
qed

lemma FirecrawlService_key:
  "k \<noteq> [] \<Longrightarrow>
   FirecrawlService mk (Some k) env =
     (case mk (''Bearer '' @ k) of
        Inl e \<Rightarrow> Inl e
      | Inr c \<Rightarrow> Inr \<lparr>service_api_key = k, service_client = c\<rparr>)"
  by (cases k) (simp_all add: FirecrawlService_def py_or_def and_then_def split: sum.splits)

lemma FirecrawlService_env:
  "k \<noteq> [] \<Longrightarrow> api_key = None \<or> api_key = Some [] \<Longrightarrow>
   FirecrawlService mk api_key (Some k) =
     (case mk (''Bearer '' @ k) of
        Inl e \<Rightarrow> Inl e
      | Inr c \<Rightarrow> Inr \<lparr>service_api_key = k, service_client = c\<rparr>)"
  by (cases k) (auto simp: FirecrawlService_def py_or_def and_then_def split: sum.splits)

lemma FirecrawlService_missing:
  "api_key = None \<or> api_key = Some [] \<Longrightarrow> env = None \<or> env = Some [] \<Longrightarrow>
   FirecrawlService mk api_key env = Inl (ValueError ''FIRECRAWL_API_KEY is required'')"
  by (auto simp: FirecrawlService_def py_or_def)

lemma VisionService_key:
  "k \<noteq> [] \<Longrightarrow>
   VisionService mk (Some k) env =
     (case mk k of
        Inl e \<Rightarrow> Inl e
      | Inr c \<Rightarrow> Inr \<lparr>vision_api_key = k, vision_client = c,
                       vision_model = ''claude-sonnet-4-20250514''\<rparr>)"
  by (cases k) (simp_all add: VisionService_def py_or_def and_then_def split: sum.splits)

lemma VisionService_env:
  "k \<noteq> [] \<Longrightarrow> api_key = None \<or> api_key = Some [] \<Longrightarrow>
   VisionService mk api_key (Some k) =
     (case mk k of
        Inl e \<Rightarrow> Inl e
      | Inr c \<Rightarrow> Inr \<lparr>vision_api_key = k, vision_client = c,
                       vision_model = ''claude-sonnet-4-20250514''\<rparr>)"
  by (cases k) (auto simp: VisionService_def py_or_def and_then_def split: sum.splits)

lemma VisionService_missing:
  "api_key = None \<or> api_key = Some [] \<Longrightarrow> env = None \<or> env = Some [] \<Longrightarrow>
   VisionService mk api_key env = Inl (ValueError ''ANTHROPIC_API_KEY is required'')"
  by (auto simp: VisionService_def py_or_def)

text \<open>
  C8, as stated, fails: with the environment variable present and empty, or the parameter
  present and empty, and the other absent, construction raises the configuration error
  (the guard is \<^verbatim>\<open>if not self.api_key\<close>); and with a parameter that has a character beyond
  ASCII the guard passes and building the HTTP client raises \<^verbatim>\<open>UnicodeEncodeError\<close>.
\<close>

theorem key_rejected:
  "FirecrawlService ascii_client None (Some []) =
     Inl (ValueError ''FIRECRAWL_API_KEY is required'') \<and>
   VisionService any_client None (Some []) =
     Inl (ValueError ''ANTHROPIC_API_KEY is required'') \<and>
   FirecrawlService ascii_client (Some []) None =
     Inl (ValueError ''FIRECRAWL_API_KEY is required'') \<and>
   VisionService any_client (Some []) None =
     Inl (ValueError ''ANTHROPIC_API_KEY is required'') \<and>
   FirecrawlService ascii_client (Some non_ascii_key) None = Inl UnicodeEncodeError"
  by (simp add: FirecrawlService_def VisionService_def py_or_def non_ascii_key_def
      ascii_client_def is_ascii_def)

text \<open>
  C8, amended. Whenever each of the parameter and the environment variable is absent or
  empty, both constructors raise \<^verbatim>\<open>ValueError\<close>, whatever the client library would do. With a
  non-empty parameter, or with a non-empty environment variable and the parameter absent or
  empty, the guard passes and the outcome is that of the client library's constructor for
  that key: its exception, or the service holding the key and the client. The
  configuration error belongs to construction alone: \<open>extract_brand\<close> and \<open>analyze_brand\<close>
  raise a \<^verbatim>\<open>ValueError\<close> only if the transport, the model call or the decoder raised that
  very error.
\<close>

theorem service_construction:
  "((api_key = None \<or> api_key = Some []) \<and> (env = None \<or> env = Some []) \<longrightarrow>
      FirecrawlService mk api_key env = Inl (ValueError ''FIRECRAWL_API_KEY is required'') \<and>
      VisionService mk' api_key env = Inl (ValueError ''ANTHROPIC_API_KEY is required'')) \<and>
   (k \<noteq> [] \<longrightarrow>
      FirecrawlService mk (Some k) env =
        (case mk (''Bearer '' @ k) of
           Inl e \<Rightarrow> Inl e
         | Inr c \<Rightarrow> Inr \<lparr>service_api_key = k, service_client = c\<rparr>) \<and>
      VisionService mk' (Some k) env =
        (case mk' k of
           Inl e \<Rightarrow> Inl e
         | Inr c \<Rightarrow> Inr \<lparr>vision_api_key = k, vision_client = c,
                          vision_model = ''claude-sonnet-4-20250514''\<rparr>)) \<and>
   (k \<noteq> [] \<and> (api_key = None \<or> api_key = Some []) \<longrightarrow>
      FirecrawlService mk api_key (Some k) =
        (case mk (''Bearer '' @ k) of
           Inl e \<Rightarrow> Inl e
         | Inr c \<Rightarrow> Inr \<lparr>service_api_key = k, service_client = c\<rparr>) \<and>
      VisionService mk' api_key (Some k) =
        (case mk' k of
           Inl e \<Rightarrow> Inl e
         | Inr c \<Rightarrow> Inr \<lparr>vision_api_key = k, vision_client = c,
                          vision_model = ''claude-sonnet-4-20250514''\<rparr>)) \<and>
   (response \<noteq> Inl (ValueError m) \<longrightarrow>
      extract_brand repr response u inc \<noteq> Inl (ValueError m)) \<and>
   (completion \<noteq> Inl (ValueError m) \<and> (\<forall>s. loads s \<noteq> Inl (ValueError m)) \<longrightarrow>
      analyze_brand loads completion shot src \<noteq> Inl (ValueError m))"
proof -
  have call1: "response \<noteq> Inl (ValueError m) \<longrightarrow>
      extract_brand repr response u inc \<noteq> Inl (ValueError m)"
    using extract_brand_error [of repr response u inc "ValueError m"] by auto
  have call2: "completion \<noteq> Inl (ValueError m) \<and> (\<forall>s. loads s \<noteq> Inl (ValueError m)) \<longrightarrow>
      analyze_brand loads completion shot src \<noteq> Inl (ValueError m)"
    using analyze_brand_error [of loads completion shot src "ValueError m"] by auto
  show ?thesis
    using call1 call2
    by (simp add: FirecrawlService_key FirecrawlService_env FirecrawlService_missing
        VisionService_key VisionService_env VisionService_missing)
qed

theorem service_construction_witness:
  "FirecrawlService ascii_client (Some ''test-key'') None =
     Inr \<lparr>service_api_key = ''test-key'', service_client = ''Bearer test-key''\<rparr> \<and>
   VisionService any_client (Some ''test-key'') None =
     Inr \<lparr>vision_api_key = ''test-key'', vision_client = ''test-key'',
          vision_model = ''claude-sonnet-4-20250514''\<rparr> \<and>
   FirecrawlService ascii_client None (Some ''env-key'') =
     Inr \<lparr>service_api_key = ''env-key'', service_client = ''Bearer env-key''\<rparr> \<and>
   VisionService any_client None (Some ''env-key'') =
     Inr \<lparr>vision_api_key = ''env-key'', vision_client = ''env-key'',
          vision_model = ''claude-sonnet-4-20250514''\<rparr> \<and>
   FirecrawlService ascii_client (Some non_ascii_key) None = Inl UnicodeEncodeError \<and>
   FirecrawlService ascii_client None None =
     Inl (ValueError ''FIRECRAWL_API_KEY is required'') \<and>
   VisionService any_client None None = Inl (ValueError ''ANTHROPIC_API_KEY is required'') \<and>
   extract_brand no_repr (Inr null_branding_payload) ''https://example.com'' False \<noteq>
     Inl (ValueError ''FIRECRAWL_API_KEY is required'') \<and>
   analyze_brand (loads_table []) (Inr ''not valid json at all'')
       ''https://screenshot.url/img.png'' ''https://example.com'' \<noteq>
     Inl (ValueError ''ANTHROPIC_API_KEY is required'')"
proof -
  have l: "\<forall>s. loads_table [] s \<noteq> Inl (ValueError ''ANTHROPIC_API_KEY is required'')"
    by (simp add: loads_table_def)
  have a: "ascii_client ''Bearer test-key'' = Inr ''Bearer test-key''"
    "ascii_client ''Bearer env-key'' = Inr ''Bearer env-key''"
    "ascii_client (''Bearer '' @ non_ascii_key) = Inl UnicodeEncodeError"
    by (simp_all add: ascii_client_def is_ascii_def non_ascii_key_def)
  have n: "non_ascii_key \<noteq> []"
    by (simp add: non_ascii_key_def)
  show ?thesis
    using l n
      service_construction [of None None ascii_client any_client "''test-key''"
        "Inr null_branding_payload" "''FIRECRAWL_API_KEY is required''" no_repr
        "''https://example.com''" False "Inr ''not valid json at all''" "loads_table []"
        "''https://screenshot.url/img.png''" "''https://example.com''"]
      service_construction [of None None ascii_client any_client "''env-key''"
        "Inr null_branding_payload" "''ANTHROPIC_API_KEY is required''" no_repr
        "''https://example.com''" False "Inr ''not valid json at all''" "loads_table []"
        "''https://screenshot.url/img.png''" "''https://example.com''"]
      service_construction [of None None ascii_client any_client non_ascii_key
        "Inr null_branding_payload" "''ANTHROPIC_API_KEY is required''" no_repr
        "''https://example.com''" False "Inr ''not valid json at all''" "loads_table []"
        "''https://screenshot.url/img.png''" "''https://example.com''"]
    by (simp add: a any_client_def ascii_client_def is_ascii_def non_ascii_key_def)
qed

end
